theory Spec2Isabelle
  imports Main "HOL-Library.Word" "HOL-Library.Sublist"
begin

section \<open>Data model\<close>

text \<open>
  The API types live in \<^verbatim>\<open>pkg/apis/servicecatalog/types.go\<close> and in apimachinery; the
  records below hold the fields that the validation, strategy and admission code reads or
  writes. A Go pointer or interface that may be nil is an \<open>option\<close>; a Go slice is a list
  \<open>option\<close> as well, \<open>None\<close> being the nil slice and \<open>Some []\<close> the empty,
  non-nil one (\<open>len\<close> and \<open>range\<close> do not distinguish them, an assignment does).
  A Go map is the list of its entries, one per key, or \<open>None\<close> when nil.
  \<^verbatim>\<open>int64\<close> is a 64-bit word, \<^verbatim>\<open>metav1.Time\<close> a number of seconds.

  Isabelle keeps record fields in one name space, so a field name used by two Go structs is
  prefixed in all but one of them.
\<close>

type_synonym int64 = "64 word"
type_synonym Time = int
type_synonym 'a slice = "'a list option"

definition elems :: "'a slice \<Rightarrow> 'a list" where
  "elems s = (case s of None \<Rightarrow> [] | Some xs \<Rightarrow> xs)"

definition len :: "'a slice \<Rightarrow> nat" where
  "len s = length (elems s)"

record ObjectMeta =
  Name :: string
  Namespace :: string
  Generation :: int64
  DeletionTimestamp :: "Time option"
  Finalizers :: "string slice"

record RawExtension =
  Raw :: "char slice"

record SecretKeyReference =
  SecretKeyRefName :: string
  Key :: string

record ParametersFromSource =
  SecretKeyRef :: "SecretKeyReference option"

record UserInfo =
  Username :: string
  UID :: string
  Groups :: "string slice"
  Extra :: "(string \<times> string slice) list option"

record ServiceInstanceSpec =
  ServiceClassName :: string
  PlanName :: string
  ParametersFrom :: "ParametersFromSource slice"
  SpecParameters :: "RawExtension option"
  SpecUserInfo :: "UserInfo option"

record LocalObjectReference =
  RefName :: string

record ServiceInstanceCredentialSpec =
  ServiceInstanceRef :: LocalObjectReference
  SecretName :: string

text \<open>
  \<^verbatim>\<open>ServiceInstanceCondition\<close> and \<^verbatim>\<open>ServiceInstanceCredentialCondition\<close> have the same
  fields, and so have the two properties-state structs; one record serves both kinds.
\<close>

record Condition =
  CondType :: string
  CondStatus :: string
  LastTransitionTime :: Time
  Reason :: string
  Message :: string

record PropertiesState =
  Parameters :: "RawExtension option"
  ParametersChecksum :: string

type_synonym ServiceInstancePropertiesState = PropertiesState
type_synonym ServiceInstanceCredentialPropertiesState = PropertiesState

text \<open>
  The status of a credential has the six fields below; the status of an instance has the
  same six and two more, so it is written as an extension of the first record.
\<close>

record ServiceInstanceCredentialStatus =
  Conditions :: "Condition slice"
  CurrentOperation :: string
  ReconciledGeneration :: int64
  OperationStartTime :: "Time option"
  InProgressProperties :: "PropertiesState option"
  ExternalProperties :: "PropertiesState option"

record ServiceInstanceStatus = ServiceInstanceCredentialStatus +
  AsyncOpInProgress :: bool
  LastOperation :: "string option"

record ('spec, 'status) APIObject =
  ObjectMeta :: ObjectMeta
  Spec :: 'spec
  Status :: 'status

type_synonym ServiceInstance = "(ServiceInstanceSpec, ServiceInstanceStatus) APIObject"
type_synonym ServiceInstanceCredential =
  "(ServiceInstanceCredentialSpec, ServiceInstanceCredentialStatus) APIObject"

text \<open>A \<^verbatim>\<open>runtime.Object\<close> is one of the two managed kinds or something else.\<close>

datatype Object =
  InstanceObject ServiceInstance
  | CredentialObject ServiceInstanceCredential
  | OtherObject

subsection \<open>Constants of the API package\<close>

definition GroupName :: string where
  "GroupName = ''servicecatalog.k8s.io''"

definition FinalizerServiceCatalog :: string where
  "FinalizerServiceCatalog = ''kubernetes-incubator/service-catalog''"

definition ServiceInstanceOperationProvision :: string where
  "ServiceInstanceOperationProvision = ''Provision''"

definition ServiceInstanceOperationUpdate :: string where
  "ServiceInstanceOperationUpdate = ''Update''"

definition ServiceInstanceOperationDeprovision :: string where
  "ServiceInstanceOperationDeprovision = ''Deprovision''"

definition ServiceInstanceCredentialOperationBind :: string where
  "ServiceInstanceCredentialOperationBind = ''Bind''"

definition ServiceInstanceCredentialOperationUnbind :: string where
  "ServiceInstanceCredentialOperationUnbind = ''Unbind''"

definition ServiceInstanceConditionReady :: string where
  "ServiceInstanceConditionReady = ''Ready''"

definition ServiceInstanceCredentialConditionReady :: string where
  "ServiceInstanceCredentialConditionReady = ''Ready''"

definition ConditionTrue :: string where
  "ConditionTrue = ''True''"

definition ConditionFalse :: string where
  "ConditionFalse = ''False''"

text \<open>The zero value of \<^verbatim>\<open>ServiceInstanceStatus\<close>: every field nil, empty, zero or false.\<close>

definition zeroServiceInstanceStatus :: ServiceInstanceStatus where
  "zeroServiceInstanceStatus =
     \<lparr>Conditions = None, CurrentOperation = [], ReconciledGeneration = 0,
      OperationStartTime = None, InProgressProperties = None, ExternalProperties = None,
      AsyncOpInProgress = False, LastOperation = None\<rparr>"

section \<open>Field errors\<close>

text \<open>
  \<^verbatim>\<open>field.Path\<close> is a chain of names and indexes, \<^verbatim>\<open>field.Error\<close> a struct of type,
  path, offending value and detail. \<^verbatim>\<open>field.NotSupported\<close> renders the supported values
  into its detail; the validators collect them by ranging over a Go map, whose order is
  not specified, so the model keeps the set of the values and not one order of them.
  Every validator starts from an empty, non-nil \<^verbatim>\<open>field.ErrorList\<close> and appends to it, so
  an error list is a plain list.
\<close>

datatype PathElem = Child string | Index nat
type_synonym Path = "PathElem list"

definition NewPath :: "string \<Rightarrow> Path" where
  "NewPath name = [Child name]"

datatype ErrorType =
  ErrorTypeNotFound | ErrorTypeRequired | ErrorTypeDuplicate | ErrorTypeInvalid
  | ErrorTypeNotSupported | ErrorTypeForbidden | ErrorTypeTooLong | ErrorTypeInternal

datatype ErrorDetail = Text string | SupportedValues "string set"

record Error =
  ErrType :: ErrorType
  ErrField :: Path
  BadValue :: string
  Detail :: ErrorDetail

type_synonym ErrorList = "Error list"

definition field_Required :: "Path \<Rightarrow> string \<Rightarrow> Error" where
  "field_Required p d = \<lparr>ErrType = ErrorTypeRequired, ErrField = p, BadValue = [], Detail = Text d\<rparr>"

definition field_Invalid :: "Path \<Rightarrow> string \<Rightarrow> string \<Rightarrow> Error" where
  "field_Invalid p v d = \<lparr>ErrType = ErrorTypeInvalid, ErrField = p, BadValue = v, Detail = Text d\<rparr>"

definition field_Forbidden :: "Path \<Rightarrow> string \<Rightarrow> Error" where
  "field_Forbidden p d = \<lparr>ErrType = ErrorTypeForbidden, ErrField = p, BadValue = [], Detail = Text d\<rparr>"

definition field_NotSupported :: "Path \<Rightarrow> string \<Rightarrow> string set \<Rightarrow> Error" where
  "field_NotSupported p v vs =
     \<lparr>ErrType = ErrorTypeNotSupported, ErrField = p, BadValue = v, Detail = SupportedValues vs\<rparr>"

section \<open>Collaborators of the validators\<close>

text \<open>
  The validators call into apimachinery (\<^verbatim>\<open>ValidateObjectMeta\<close>,
  \<^verbatim>\<open>NameIsDNSSubdomain\<close>), into a YAML decoder, and into functions of this repository
  that are declared in other files (\<^verbatim>\<open>validateServiceClassName\<close>,
  \<^verbatim>\<open>validateServicePlanName\<close>, \<^verbatim>\<open>controller.UnmarshalRawParameters\<close>). They are
  parameters of the model: every theorem below holds whatever these functions answer.
  \<^verbatim>\<open>UnmarshalRawParameters\<close> returns its error, \<open>None\<close> for a nil error.
  \<^verbatim>\<open>yaml.Unmarshal\<close> fills the map it is handed and returns an error: the model returns
  the error on the left or the decoded document, the entries of the map, on the right.
\<close>

type_synonym Document = "(string \<times> string) list"

record Collaborators =
  ValidateObjectMeta :: "ObjectMeta \<Rightarrow> bool \<Rightarrow> (string \<Rightarrow> bool \<Rightarrow> string list) \<Rightarrow> Path \<Rightarrow> ErrorList"
  NameIsDNSSubdomain :: "string \<Rightarrow> bool \<Rightarrow> string list"
  validateServiceClassName :: "string \<Rightarrow> bool \<Rightarrow> string list"
  validateServicePlanName :: "string \<Rightarrow> bool \<Rightarrow> string list"
  UnmarshalRawParameters :: "string \<Rightarrow> string option"
  yaml_Unmarshal :: "string \<Rightarrow> string + Document"

text \<open>
  Modelled from the spec: \<^verbatim>\<open>stringIsHexadecimal\<close>, a helper of the validation package
  that is declared in another file. The spec asks for a checksum of ``hexadecimal
  characters'' and rejects one ``containing a non-hex character''; the empty string
  contains none.
\<close>

definition isHexDigit :: "char \<Rightarrow> bool" where
  "isHexDigit c = (c \<in> set ''0123456789abcdefABCDEF'')"

definition stringIsHexadecimal :: "string \<Rightarrow> bool" where
  "stringIsHexadecimal s = list_all isHexDigit s"

section \<open>Validation of a ServiceInstance\<close>

definition validateServiceInstanceName :: "Collaborators \<Rightarrow> string \<Rightarrow> bool \<Rightarrow> string list" where
  "validateServiceInstanceName ext = NameIsDNSSubdomain ext"

definition validServiceInstanceOperations :: "(string \<times> bool) list" where
  "validServiceInstanceOperations =
     [([], True),
      (ServiceInstanceOperationProvision, True),
      (ServiceInstanceOperationUpdate, True),
      (ServiceInstanceOperationDeprovision, True)]"

text \<open>
  The map of valid operations is the list of its entries. Reading a Go map of booleans at a
  missing key gives false; ranging over it gives its keys.
\<close>

definition lookupBool :: "(string \<times> bool) list \<Rightarrow> string \<Rightarrow> bool" where
  "lookupBool m k = (case map_of m k of None \<Rightarrow> False | Some b \<Rightarrow> b)"

definition mapKeys :: "(string \<times> bool) list \<Rightarrow> string set" where
  "mapKeys m = set (map fst m)"

text \<open>The body of the loop over \<^verbatim>\<open>spec.ParametersFrom\<close>: the errors of one source.\<close>

definition validateParametersFromSource :: "Path \<Rightarrow> ParametersFromSource \<Rightarrow> ErrorList" where
  "validateParametersFromSource fldPath paramsFrom =
     (case SecretKeyRef paramsFrom of
        Some ref \<Rightarrow>
          (if SecretKeyRefName ref = []
           then [field_Required (fldPath @ [Child ''parametersFrom.secretKeyRef.name'']) ''name is required'']
           else [])
          @ (if Key ref = []
             then [field_Required (fldPath @ [Child ''parametersFrom.secretKeyRef.key'']) ''key is required'']
             else [])
      | None \<Rightarrow>
          [field_Required (fldPath @ [Child ''parametersFrom'']) ''source must not be empty if present''])"

definition validateServiceInstanceSpec :: "Collaborators \<Rightarrow> ServiceInstanceSpec \<Rightarrow> Path \<Rightarrow> bool \<Rightarrow> ErrorList" where
  "validateServiceInstanceSpec ext spec fldPath create =
     (if [] = ServiceClassName spec
      then [field_Required (fldPath @ [Child ''serviceClassName'']) ''serviceClassName is required'']
      else [])
     @ map (\<lambda>msg. field_Invalid (fldPath @ [Child ''serviceClassName'']) (ServiceClassName spec) msg)
         (validateServiceClassName ext (ServiceClassName spec) False)
     @ (if [] = PlanName spec
        then [field_Required (fldPath @ [Child ''planName'']) ''planName is required'']
        else [])
     @ map (\<lambda>msg. field_Invalid (fldPath @ [Child ''planName'']) (PlanName spec) msg)
         (validateServicePlanName ext (PlanName spec) False)
     @ (case ParametersFrom spec of
          None \<Rightarrow> []
        | Some srcs \<Rightarrow> concat (map (validateParametersFromSource fldPath) srcs))
     @ (case SpecParameters spec of
          None \<Rightarrow> []
        | Some params \<Rightarrow>
            (if len (Raw params) = 0
             then [field_Required (fldPath @ [Child ''parameters'']) ''inline parameters must not be empty if present'']
             else [])
            @ (if UnmarshalRawParameters ext (elems (Raw params)) \<noteq> None
               then [field_Required (fldPath @ [Child ''parameters'']) ''invalid inline parameters'']
               else []))"

definition validateServiceInstancePropertiesState ::
  "Collaborators \<Rightarrow> ServiceInstancePropertiesState \<Rightarrow> Path \<Rightarrow> bool \<Rightarrow> ErrorList" where
  "validateServiceInstancePropertiesState ext propertiesState fldPath create =
     (case Parameters propertiesState of
        None \<Rightarrow>
          (if ParametersChecksum propertiesState \<noteq> []
           then [field_Forbidden (fldPath @ [Child ''parametersChecksum''])
                   ''parametersChecksum must be empty when there are no parameters'']
           else [])
      | Some params \<Rightarrow>
          (if len (Raw params) = 0
           then [field_Required (fldPath @ [Child ''parameters'', Child ''raw'']) ''raw must not be empty'']
           else (case yaml_Unmarshal ext (elems (Raw params)) of
                   Inl err \<Rightarrow>
                     [field_Invalid (fldPath @ [Child ''parameters'', Child ''raw''])
                        (elems (Raw params)) ''raw must be valid yaml'']
                 | Inr unmarshalled \<Rightarrow> []))
          @ (if ParametersChecksum propertiesState = []
             then [field_Forbidden (fldPath @ [Child ''parametersChecksum''])
                     ''parametersChecksum must not be empty when there are parameters'']
             else []))
     @ (if ParametersChecksum propertiesState \<noteq> []
        then (if length (ParametersChecksum propertiesState) \<noteq> 64
              then [field_Invalid (fldPath @ [Child ''parametersChecksum''])
                      (ParametersChecksum propertiesState)
                      ''parametersChecksum must be exactly 64 digits'']
              else [])
             @ (if \<not> stringIsHexadecimal (ParametersChecksum propertiesState)
                then [field_Invalid (fldPath @ [Child ''parametersChecksum''])
                        (ParametersChecksum propertiesState)
                        ''parametersChecksum must be a hexadecimal number'']
                else [])
        else [])"

text \<open>
  The loop over the conditions (\<^verbatim>\<open>for i, c := range status.Conditions\<close>), with the index
  it has reached.
\<close>

fun readyTrueErrors :: "string \<Rightarrow> string \<Rightarrow> Path \<Rightarrow> nat \<Rightarrow> Condition list \<Rightarrow> ErrorList" where
  "readyTrueErrors ready msg fldPath i [] = []"
| "readyTrueErrors ready msg fldPath i (c # cs) =
     (if CondType c = ready \<and> CondStatus c = ConditionTrue
      then [field_Forbidden (fldPath @ [Child ''Conditions'', Index i]) msg]
      else [])
     @ readyTrueErrors ready msg fldPath (Suc i) cs"

definition validateServiceInstanceStatus ::
  "Collaborators \<Rightarrow> ServiceInstanceStatus \<Rightarrow> Path \<Rightarrow> bool \<Rightarrow> ErrorList" where
  "validateServiceInstanceStatus ext status fldPath create =
     (if \<not> lookupBool validServiceInstanceOperations (CurrentOperation status)
      then [field_NotSupported (fldPath @ [Child ''currentOperation'']) (CurrentOperation status)
              (mapKeys validServiceInstanceOperations)]
      else [])
     @ (if CurrentOperation status = []
        then (if OperationStartTime status \<noteq> None
              then [field_Forbidden (fldPath @ [Child ''operationStartTime''])
                      ''operationStartTime must not be present when currentOperation is not present'']
              else [])
             @ (if AsyncOpInProgress status
                then [field_Forbidden (fldPath @ [Child ''asyncOpInProgress''])
                        ''asyncOpInProgress cannot be true when there is no currentOperation'']
                else [])
             @ (if LastOperation status \<noteq> None
                then [field_Forbidden (fldPath @ [Child ''lastOperation''])
                        ''lastOperation cannot be true when currentOperation is not present'']
                else [])
        else (if OperationStartTime status = None
              then [field_Required (fldPath @ [Child ''operationStartTime''])
                      ''operationStartTime is required when currentOperation is present'']
              else [])
             @ readyTrueErrors ServiceInstanceConditionReady
                 ''Can not set ServiceInstanceConditionReady to true when there is an operation in progress''
                 fldPath 0 (elems (Conditions status)))
     @ (if CurrentOperation status = ServiceInstanceOperationProvision
           \<or> CurrentOperation status = ServiceInstanceOperationUpdate
        then (if InProgressProperties status = None
              then [field_Required (fldPath @ [Child ''inProgressProperties''])
                      ''inProgressProperties is required when currentOperation is \"Provision\" or \"Update\"'']
              else [])
        else (if InProgressProperties status \<noteq> None
              then [field_Forbidden (fldPath @ [Child ''inProgressProperties''])
                      ''inProgressProperties must not be present when currentOperation is neither \"Provision\" nor \"Update\"'']
              else []))
     @ (case InProgressProperties status of
          None \<Rightarrow> []
        | Some ps \<Rightarrow>
            validateServiceInstancePropertiesState ext ps (fldPath @ [Child ''inProgressProperties'']) create)
     @ (case ExternalProperties status of
          None \<Rightarrow> []
        | Some ps \<Rightarrow>
            validateServiceInstancePropertiesState ext ps (fldPath @ [Child ''externalProperties'']) create)"

definition internalValidateServiceInstance :: "Collaborators \<Rightarrow> ServiceInstance \<Rightarrow> bool \<Rightarrow> ErrorList" where
  "internalValidateServiceInstance ext instance create =
     ValidateObjectMeta ext (ObjectMeta instance) True (validateServiceInstanceName ext) (NewPath ''metadata'')
     @ validateServiceInstanceSpec ext (Spec instance) (NewPath ''Spec'') create
     @ validateServiceInstanceStatus ext (Status instance) (NewPath ''Status'') create
     @ (if ReconciledGeneration (Status instance) = Generation (ObjectMeta instance)
        then (if CurrentOperation (Status instance) \<noteq> []
              then [field_Forbidden (NewPath ''Status'' @ [Child ''currentOperation''])
                      ''currentOperation must not be present when reconciledGeneration and generation are the same'']
              else [])
        else [])"

definition ValidateServiceInstance :: "Collaborators \<Rightarrow> ServiceInstance \<Rightarrow> ErrorList" where
  "ValidateServiceInstance ext instance = internalValidateServiceInstance ext instance True"

definition internalValidateServiceInstanceUpdateAllowed :: "ServiceInstance \<Rightarrow> ServiceInstance \<Rightarrow> ErrorList" where
  "internalValidateServiceInstanceUpdateAllowed new old =
     (if AsyncOpInProgress (Status old)
      then [field_Forbidden (NewPath ''Spec'') ''Another operation for this service instance is in progress'']
      else [])"

definition ValidateServiceInstanceUpdate :: "Collaborators \<Rightarrow> ServiceInstance \<Rightarrow> ServiceInstance \<Rightarrow> ErrorList" where
  "ValidateServiceInstanceUpdate ext new old =
     internalValidateServiceInstanceUpdateAllowed new old
     @ internalValidateServiceInstance ext new False"

definition internalValidateServiceInstanceStatusUpdateAllowed :: "ServiceInstance \<Rightarrow> ServiceInstance \<Rightarrow> ErrorList" where
  "internalValidateServiceInstanceStatusUpdateAllowed new old = []"

definition ValidateServiceInstanceStatusUpdate :: "Collaborators \<Rightarrow> ServiceInstance \<Rightarrow> ServiceInstance \<Rightarrow> ErrorList" where
  "ValidateServiceInstanceStatusUpdate ext new old =
     internalValidateServiceInstanceStatusUpdateAllowed new old
     @ internalValidateServiceInstance ext new False"

section \<open>Validation of a ServiceInstanceCredential\<close>

definition validateServiceInstanceCredentialName :: "Collaborators \<Rightarrow> string \<Rightarrow> bool \<Rightarrow> string list" where
  "validateServiceInstanceCredentialName ext = NameIsDNSSubdomain ext"

definition validServiceInstanceCredentialOperations :: "(string \<times> bool) list" where
  "validServiceInstanceCredentialOperations =
     [([], True),
      (ServiceInstanceCredentialOperationBind, True),
      (ServiceInstanceCredentialOperationUnbind, True)]"

definition validateServiceInstanceCredentialSpec ::
  "Collaborators \<Rightarrow> ServiceInstanceCredentialSpec \<Rightarrow> Path \<Rightarrow> bool \<Rightarrow> ErrorList" where
  "validateServiceInstanceCredentialSpec ext spec fldPath create =
     map (\<lambda>msg. field_Invalid (fldPath @ [Child ''instanceRef'', Child ''name''])
                  (RefName (ServiceInstanceRef spec)) msg)
       (validateServiceInstanceName ext (RefName (ServiceInstanceRef spec)) False)
     @ map (\<lambda>msg. field_Invalid (fldPath @ [Child ''secretName'']) (SecretName spec) msg)
         (NameIsDNSSubdomain ext (SecretName spec) False)"

definition validateServiceInstanceCredentialPropertiesState ::
  "Collaborators \<Rightarrow> ServiceInstanceCredentialPropertiesState \<Rightarrow> Path \<Rightarrow> bool \<Rightarrow> ErrorList" where
  "validateServiceInstanceCredentialPropertiesState ext propertiesState fldPath create =
     (case Parameters propertiesState of
        None \<Rightarrow>
          (if ParametersChecksum propertiesState \<noteq> []
           then [field_Forbidden (fldPath @ [Child ''parametersChecksum''])
                   ''parametersChecksum must be empty when there are no parameters'']
           else [])
      | Some params \<Rightarrow>
          (if len (Raw params) = 0
           then [field_Required (fldPath @ [Child ''parameters'', Child ''raw'']) ''raw must not be empty'']
           else (case yaml_Unmarshal ext (elems (Raw params)) of
                   Inl err \<Rightarrow>
                     [field_Invalid (fldPath @ [Child ''parameters'', Child ''raw''])
                        (elems (Raw params)) ''raw must be valid yaml'']
                 | Inr unmarshalled \<Rightarrow> []))
          @ (if ParametersChecksum propertiesState = []
             then [field_Forbidden (fldPath @ [Child ''parametersChecksum''])
                     ''parametersChecksum must not be empty when there are parameters'']
             else []))
     @ (if ParametersChecksum propertiesState \<noteq> []
        then (if length (ParametersChecksum propertiesState) \<noteq> 64
              then [field_Invalid (fldPath @ [Child ''parametersChecksum''])
                      (ParametersChecksum propertiesState)
                      ''parametersChecksum must be exactly 64 digits'']
              else [])
             @ (if \<not> stringIsHexadecimal (ParametersChecksum propertiesState)
                then [field_Invalid (fldPath @ [Child ''parametersChecksum''])
                        (ParametersChecksum propertiesState)
                        ''parametersChecksum must be a hexadecimal number'']
                else [])
        else [])"

text \<open>
  The \<^verbatim>\<open>switch\<close> over the operation appends nothing in either branch
  (\<^verbatim>\<open>allErrs = append(allErrs)\<close>), so it leaves no trace in the model.
\<close>

definition validateServiceInstanceCredentialStatus ::
  "Collaborators \<Rightarrow> ServiceInstanceCredentialStatus \<Rightarrow> Path \<Rightarrow> bool \<Rightarrow> ErrorList" where
  "validateServiceInstanceCredentialStatus ext status fldPath create =
     (if \<not> lookupBool validServiceInstanceCredentialOperations (CurrentOperation status)
      then [field_NotSupported (fldPath @ [Child ''currentOperation'']) (CurrentOperation status)
              (mapKeys validServiceInstanceCredentialOperations)]
      else [])
     @ (if CurrentOperation status = []
        then (if OperationStartTime status \<noteq> None
              then [field_Forbidden (fldPath @ [Child ''operationStartTime''])
                      ''operationStartTime must not be present when currentOperation is not present'']
              else [])
        else (if OperationStartTime status = None
              then [field_Required (fldPath @ [Child ''operationStartTime''])
                      ''operationStartTime is required when currentOperation is present'']
              else [])
             @ readyTrueErrors ServiceInstanceCredentialConditionReady
                 ''Can not set ServiceInstanceCredentialConditionReady to true when there is an operation in progress''
                 fldPath 0 (elems (Conditions status)))
     @ (if CurrentOperation status = ServiceInstanceCredentialOperationBind
        then (if InProgressProperties status = None
              then [field_Required (fldPath @ [Child ''inProgressProperties''])
                      ''inProgressProperties is required when currentOperation is \"Bind\"'']
              else [])
        else (if InProgressProperties status \<noteq> None
              then [field_Forbidden (fldPath @ [Child ''inProgressProperties''])
                      ''inProgressProperties must not be present when currentOperation is not \"Bind\"'']
              else []))
     @ (case InProgressProperties status of
          None \<Rightarrow> []
        | Some ps \<Rightarrow>
            validateServiceInstanceCredentialPropertiesState ext ps
              (fldPath @ [Child ''inProgressProperties'']) create)
     @ (case ExternalProperties status of
          None \<Rightarrow> []
        | Some ps \<Rightarrow>
            validateServiceInstanceCredentialPropertiesState ext ps
              (fldPath @ [Child ''externalProperties'']) create)"

definition internalValidateServiceInstanceCredential ::
  "Collaborators \<Rightarrow> ServiceInstanceCredential \<Rightarrow> bool \<Rightarrow> ErrorList" where
  "internalValidateServiceInstanceCredential ext binding create =
     ValidateObjectMeta ext (ObjectMeta binding) True (validateServiceInstanceCredentialName ext)
       (NewPath ''metadata'')
     @ validateServiceInstanceCredentialSpec ext (Spec binding) (NewPath ''Spec'') create
     @ validateServiceInstanceCredentialStatus ext (Status binding) (NewPath ''Status'') create
     @ (if ReconciledGeneration (Status binding) = Generation (ObjectMeta binding)
        then (if CurrentOperation (Status binding) \<noteq> []
              then [field_Forbidden (NewPath ''Status'' @ [Child ''currentOperation''])
                      ''currentOperation must not be present when reconciledGeneration andgeneration are the same'']
              else [])
        else [])"

definition ValidateServiceInstanceCredential :: "Collaborators \<Rightarrow> ServiceInstanceCredential \<Rightarrow> ErrorList" where
  "ValidateServiceInstanceCredential ext binding = internalValidateServiceInstanceCredential ext binding True"

definition ValidateServiceInstanceCredentialUpdate ::
  "Collaborators \<Rightarrow> ServiceInstanceCredential \<Rightarrow> ServiceInstanceCredential \<Rightarrow> ErrorList" where
  "ValidateServiceInstanceCredentialUpdate ext new old =
     internalValidateServiceInstanceCredential ext new False"

definition ValidateServiceInstanceCredentialStatusUpdate ::
  "Collaborators \<Rightarrow> ServiceInstanceCredential \<Rightarrow> ServiceInstanceCredential \<Rightarrow> ErrorList" where
  "ValidateServiceInstanceCredentialStatusUpdate ext new old =
     [] @ ValidateServiceInstanceCredentialUpdate ext new old"

section \<open>The lifecycle strategy of a ServiceInstance\<close>

text \<open>
  What the strategy reads besides its arguments: the feature gate
  \<^verbatim>\<open>OriginatingIdentity\<close>, the user of the request context (absent or present) and the
  clock (\<^verbatim>\<open>metav1.Now()\<close>). \<^verbatim>\<open>glog.Fatal\<close> ends the process; the model returns its
  message on the left of a sum.
\<close>

record user_Info =
  GetName :: string
  GetUID :: string
  GetGroups :: "string slice"
  GetExtra :: "(string \<times> string slice) list option"

record Context =
  OriginatingIdentity :: bool
  UserFrom :: "user_Info option"
  Now :: Time

text \<open>
  \<^verbatim>\<open>len(extra) > 0\<close> for a Go map: the map is not nil and has an entry. The loop that
  follows copies every entry into a fresh map.
\<close>

definition mapNonEmpty :: "('k \<times> 'v) list option \<Rightarrow> bool" where
  "mapNonEmpty m = (case m of None \<Rightarrow> False | Some es \<Rightarrow> es \<noteq> [])"

definition setServiceInstanceUserInfo :: "ServiceInstance \<Rightarrow> Context \<Rightarrow> ServiceInstance" where
  "setServiceInstanceUserInfo instance ctx =
     (case UserFrom ctx of
        None \<Rightarrow> instance\<lparr>Spec := (Spec instance)\<lparr>SpecUserInfo := None\<rparr>\<rparr>
      | Some user \<Rightarrow>
          instance\<lparr>Spec := (Spec instance)\<lparr>SpecUserInfo := Some
            \<lparr>Username = GetName user, UID = GetUID user, Groups = GetGroups user,
             Extra = (if mapNonEmpty (GetExtra user) then GetExtra user else None)\<rparr>\<rparr>\<rparr>)"

definition PrepareForCreate :: "Context \<Rightarrow> Object \<Rightarrow> string + ServiceInstance" where
  "PrepareForCreate ctx obj =
     (case obj of
        InstanceObject instance \<Rightarrow>
          (let instance = (if OriginatingIdentity ctx then setServiceInstanceUserInfo instance ctx
                           else instance);
               instance = instance\<lparr>Status := zeroServiceInstanceStatus\<rparr>;
               instance = instance\<lparr>Status := (Status instance)\<lparr>Conditions := Some []\<rparr>\<rparr>;
               instance = instance\<lparr>ObjectMeta := (ObjectMeta instance)\<lparr>Finalizers := Some [FinalizerServiceCatalog]\<rparr>\<rparr>;
               instance = instance\<lparr>ObjectMeta := (ObjectMeta instance)\<lparr>Generation := 1\<rparr>\<rparr>
           in Inr instance)
      | _ \<Rightarrow> Inl ''received a non-instance object to create'')"

text \<open>
  \<^verbatim>\<open>apiequality.Semantic.DeepEqual\<close> of apimachinery compares field by field, follows
  pointers, and takes a nil slice or map for equal to an empty one.
\<close>

definition deepEqualSlice :: "('a \<Rightarrow> 'a \<Rightarrow> bool) \<Rightarrow> 'a slice \<Rightarrow> 'a slice \<Rightarrow> bool" where
  "deepEqualSlice eq a b = list_all2 eq (elems a) (elems b)"

definition deepEqualPtr :: "('a \<Rightarrow> 'a \<Rightarrow> bool) \<Rightarrow> 'a option \<Rightarrow> 'a option \<Rightarrow> bool" where
  "deepEqualPtr eq a b =
     (case (a, b) of
        (None, None) \<Rightarrow> True
      | (Some x, Some y) \<Rightarrow> eq x y
      | _ \<Rightarrow> False)"

definition mapEntries :: "('k \<times> 'v) list option \<Rightarrow> ('k \<times> 'v) list" where
  "mapEntries m = (case m of None \<Rightarrow> [] | Some es \<Rightarrow> es)"

definition deepEqualMap ::
  "('v \<Rightarrow> 'v \<Rightarrow> bool) \<Rightarrow> ('k \<times> 'v) list option \<Rightarrow> ('k \<times> 'v) list option \<Rightarrow> bool" where
  "deepEqualMap eq a b =
     list_all (\<lambda>k. deepEqualPtr eq (map_of (mapEntries a) k) (map_of (mapEntries b) k))
       (map fst (mapEntries a) @ map fst (mapEntries b))"

definition deepEqualRawExtension :: "RawExtension \<Rightarrow> RawExtension \<Rightarrow> bool" where
  "deepEqualRawExtension a b = deepEqualSlice (=) (Raw a) (Raw b)"

definition deepEqualParametersFromSource :: "ParametersFromSource \<Rightarrow> ParametersFromSource \<Rightarrow> bool" where
  "deepEqualParametersFromSource a b = deepEqualPtr (=) (SecretKeyRef a) (SecretKeyRef b)"

definition deepEqualUserInfo :: "UserInfo \<Rightarrow> UserInfo \<Rightarrow> bool" where
  "deepEqualUserInfo a b =
     (Username a = Username b \<and> UID a = UID b
      \<and> deepEqualSlice (=) (Groups a) (Groups b)
      \<and> deepEqualMap (deepEqualSlice (=)) (Extra a) (Extra b))"

definition Semantic_DeepEqual :: "ServiceInstanceSpec \<Rightarrow> ServiceInstanceSpec \<Rightarrow> bool" where
  "Semantic_DeepEqual a b =
     (ServiceClassName a = ServiceClassName b \<and> PlanName a = PlanName b
      \<and> deepEqualSlice deepEqualParametersFromSource (ParametersFrom a) (ParametersFrom b)
      \<and> deepEqualPtr deepEqualRawExtension (SpecParameters a) (SpecParameters b)
      \<and> deepEqualPtr deepEqualUserInfo (SpecUserInfo a) (SpecUserInfo b))"

text \<open>The index of the first condition of type Ready, as the loop finds it.\<close>

fun findReady :: "nat \<Rightarrow> Condition list \<Rightarrow> nat option" where
  "findReady i [] = None"
| "findReady i (cond # conds) =
     (if CondType cond = ServiceInstanceConditionReady then Some i else findReady (Suc i) conds)"

definition setServiceInstanceReadyFalseCondition :: "Time \<Rightarrow> ServiceInstance \<Rightarrow> ServiceInstance" where
  "setServiceInstanceReadyFalseCondition now instance =
     (let newCondition =
            \<lparr>CondType = ServiceInstanceConditionReady, CondStatus = ConditionFalse,
             LastTransitionTime = 0, Reason = ''UpdateInitiated'',
             Message = ''Update initiated on ServiceInstance''\<rparr>;
          conds = elems (Conditions (Status instance))
      in if length conds = 0
         then instance\<lparr>Status := (Status instance)
                \<lparr>Conditions := Some [newCondition\<lparr>LastTransitionTime := now\<rparr>]\<rparr>\<rparr>
         else (case findReady 0 conds of
                 Some i \<Rightarrow>
                   (let cond = conds ! i;
                        newCondition =
                          (if CondStatus cond \<noteq> CondStatus newCondition
                           then newCondition\<lparr>LastTransitionTime := now\<rparr>
                           else newCondition\<lparr>LastTransitionTime := LastTransitionTime cond\<rparr>)
                    in instance\<lparr>Status := (Status instance)
                         \<lparr>Conditions := Some (conds[i := newCondition])\<rparr>\<rparr>)
               | None \<Rightarrow>
                   instance\<lparr>Status := (Status instance)
                     \<lparr>Conditions := Some (conds @ [newCondition\<lparr>LastTransitionTime := now\<rparr>])\<rparr>\<rparr>))"

text \<open>
  The one branch of \<^verbatim>\<open>setServiceInstanceReadyFalseCondition\<close> that assigns through the
  slice (\<^verbatim>\<open>instance.Status.Conditions[i] = newCondition\<close>) instead of giving the instance a
  new slice.
\<close>

definition writesInPlace :: "ServiceInstance \<Rightarrow> bool" where
  "writesInPlace instance =
     (let conds = elems (Conditions (Status instance))
      in length conds \<noteq> 0 \<and> findReady 0 conds \<noteq> None)"

text \<open>
  \<^verbatim>\<open>PrepareForUpdate\<close> changes the new object in place. Its first assignment copies the old
  status, a struct, into the new object; the two then share the array behind
  \<open>Conditions\<close>, and the assignment through the slice reaches the old object as well. The
  model returns both objects as they are after the call.
\<close>

definition PrepareForUpdate :: "Context \<Rightarrow> Object \<Rightarrow> Object \<Rightarrow> string + (ServiceInstance \<times> ServiceInstance)" where
  "PrepareForUpdate ctx new old =
     (case new of
        InstanceObject newServiceInstance \<Rightarrow>
          (case old of
             InstanceObject oldServiceInstance \<Rightarrow>
               (let newServiceInstance = newServiceInstance\<lparr>Status := Status oldServiceInstance\<rparr>
                in if \<not> Semantic_DeepEqual (Spec oldServiceInstance) (Spec newServiceInstance)
                   then
                     (let newServiceInstance =
                            (if OriginatingIdentity ctx
                             then setServiceInstanceUserInfo newServiceInstance ctx
                             else newServiceInstance);
                          newServiceInstance = newServiceInstance\<lparr>ObjectMeta := (ObjectMeta newServiceInstance)
                            \<lparr>Generation := Generation (ObjectMeta oldServiceInstance) + 1\<rparr>\<rparr>;
                          shared = writesInPlace newServiceInstance;
                          newServiceInstance = setServiceInstanceReadyFalseCondition (Now ctx) newServiceInstance
                      in Inr (newServiceInstance,
                              if shared
                              then oldServiceInstance\<lparr>Status := (Status oldServiceInstance)
                                     \<lparr>Conditions := Conditions (Status newServiceInstance)\<rparr>\<rparr>
                              else oldServiceInstance))
                   else Inr (newServiceInstance, oldServiceInstance))
           | _ \<Rightarrow> Inl ''received a non-instance object to update from'')
      | _ \<Rightarrow> Inl ''received a non-instance object to update to'')"

section \<open>The admission gate\<close>

text \<open>
  \<^verbatim>\<open>admission.Attributes\<close> gives the resource (group, version, resource), the subresource,
  the operation and the object of the request.
\<close>

datatype Operation = Create | Update | Delete | Connect

record GroupVersionResource =
  Group :: string
  Version :: string
  Resource :: string

type_synonym GroupResource = "string \<times> string"

definition GroupResource :: "GroupVersionResource \<Rightarrow> GroupResource" where
  "GroupResource gvr = (Group gvr, Resource gvr)"

definition servicecatalog_Resource :: "string \<Rightarrow> GroupResource" where
  "servicecatalog_Resource resource = (GroupName, resource)"

record Attributes =
  GetResource :: GroupVersionResource
  GetSubresource :: string
  GetOperation :: Operation
  GetObject :: Object

text \<open>
  The errors \<^verbatim>\<open>Admit\<close> builds: \<^verbatim>\<open>admission.NewForbidden\<close> around an error text (403),
  \<^verbatim>\<open>apierrors.NewConflict\<close> for a resource, a name and a cause (409), and
  \<^verbatim>\<open>apierrors.NewBadRequest\<close> (400). Each constructor keeps what \<^verbatim>\<open>Admit\<close> hands it;
  the message of the API error ends with that text. \<open>None\<close> is the nil error: the
  request is allowed.
\<close>

datatype StatusError =
  Forbidden string
  | Conflict GroupResource string string
  | BadRequest string

text \<open>
  The gate reads two informers, each with its \<^verbatim>\<open>HasSynced\<close>. Their state is not the
  gate's: it is an argument of \<^verbatim>\<open>Admit\<close>, the state at the moment the handler answers.
\<close>

record Informers =
  instanceInformerHasSynced :: bool
  instanceCredentialInformerHasSynced :: bool

record blockConcurrentUpdates =
  readyFunc :: "(Informers \<Rightarrow> bool) option"
  instanceLister :: bool
  instanceCredentialLister :: bool

definition NewBlockConcurrentUpdates :: blockConcurrentUpdates where
  "NewBlockConcurrentUpdates =
     \<lparr>readyFunc = None, instanceLister = False, instanceCredentialLister = False\<rparr>"

definition SetInternalServiceCatalogInformerFactory :: "blockConcurrentUpdates \<Rightarrow> blockConcurrentUpdates" where
  "SetInternalServiceCatalogInformerFactory cu =
     cu\<lparr>instanceLister := True, instanceCredentialLister := True,
        readyFunc := Some (\<lambda>f. instanceInformerHasSynced f \<and> instanceCredentialInformerHasSynced f)\<rparr>"

text \<open>
  \<^verbatim>\<open>Handler.WaitForReady\<close> of the API server library: true at once when no ready function
  is set; otherwise it polls the function for a bounded time and returns what the function
  says at the end.
\<close>

definition WaitForReady :: "blockConcurrentUpdates \<Rightarrow> Informers \<Rightarrow> bool" where
  "WaitForReady cu f = (case readyFunc cu of None \<Rightarrow> True | Some ready \<Rightarrow> ready f)"

text \<open>The name given to the Conflict error: \<^verbatim>\<open>fmt.Sprintf("%v/%v", Namespace, Name)\<close>.\<close>

definition namespacedName :: "ObjectMeta \<Rightarrow> string" where
  "namespacedName m = Namespace m @ ''/'' @ Name m"

definition Admit :: "blockConcurrentUpdates \<Rightarrow> Informers \<Rightarrow> Attributes \<Rightarrow> StatusError option" where
  "Admit cu f a =
     (if \<not> WaitForReady cu f then Some (Forbidden ''not yet ready to handle request'')
      else if Group (GetResource a) \<noteq> GroupName then None
      else if GetSubresource a = ''status'' then None
      else if GroupResource (GetResource a) = servicecatalog_Resource ''serviceinstances''
      then (case GetObject a of
              InstanceObject instance \<Rightarrow>
                (if DeletionTimestamp (ObjectMeta instance) \<noteq> None
                    \<or> ReconciledGeneration (Status instance) \<noteq> Generation (ObjectMeta instance)
                 then Some (Conflict (GroupResource (GetResource a))
                              (namespacedName (ObjectMeta instance)) ''pending change'')
                 else None)
            | _ \<Rightarrow> Some (BadRequest
                ''Resource was marked with kind ServiceInstance but was unable to be converted''))
      else if GroupResource (GetResource a) = servicecatalog_Resource ''serviceinstancecredentials''
      then (case GetObject a of
              CredentialObject instanceCredential \<Rightarrow>
                (if ReconciledGeneration (Status instanceCredential)
                      \<noteq> Generation (ObjectMeta instanceCredential)
                 then Some (Conflict (GroupResource (GetResource a))
                              (namespacedName (ObjectMeta instanceCredential)) ''pending change'')
                 else None)
            | _ \<Rightarrow> Some (BadRequest
                ''Resource was marked with kind ServiceInstanceCredential but was unable to be converted''))
      else None)"

section \<open>Predicates used in the statements\<close>



definition isConflict :: "StatusError option \<Rightarrow> bool" where
  "isConflict r = (case r of Some (Conflict gr name cause) \<Rightarrow> True | _ \<Rightarrow> False)"

definition hasReadyFalse :: "Condition slice \<Rightarrow> bool" where
  "hasReadyFalse conds =
     list_ex (\<lambda>c. CondType c = ServiceInstanceConditionReady \<and> CondStatus c = ConditionFalse)
       (elems conds)"

definition anotherOperationInProgress :: "Error \<Rightarrow> bool" where
  "anotherOperationInProgress e =
     (ErrType e = ErrorTypeForbidden
      \<and> Detail e = Text ''Another operation for this service instance is in progress'')"

text \<open>
  The condition that \<^verbatim>\<open>setServiceInstanceReadyFalseCondition\<close> writes, with its
  transition time.
\<close>

definition updateInitiated :: "Time \<Rightarrow> Condition" where
  "updateInitiated t =
     \<lparr>CondType = ServiceInstanceConditionReady, CondStatus = ConditionFalse,
      LastTransitionTime = t, Reason = ''UpdateInitiated'',
      Message = ''Update initiated on ServiceInstance''\<rparr>"

text \<open>
  What an upsert of the Ready condition makes of a list of conditions: with no Ready
  condition in the list, the list followed by the update-initiated condition stamped now;
  otherwise the list with its first Ready condition replaced by the update-initiated
  condition, which keeps the transition time of the condition it replaces when that was
  False already and is stamped now when it was not. Every other condition stays where it
  is and as it is.
\<close>

definition notReady :: "Condition \<Rightarrow> bool" where
  "notReady c = (CondType c \<noteq> ServiceInstanceConditionReady)"

definition upsertedReady :: "Time \<Rightarrow> Condition list \<Rightarrow> Condition list \<Rightarrow> bool" where
  "upsertedReady now conds conds' =
     ((list_all notReady conds \<longrightarrow> conds' = conds @ [updateInitiated now])
      \<and> list_all
          (\<lambda>k. \<not> notReady (conds ! k) \<and> list_all notReady (take k conds) \<longrightarrow>
                conds' = conds[k := updateInitiated
                  (if CondStatus (conds ! k) = ConditionFalse
                   then LastTransitionTime (conds ! k) else now)])
          [0..<length conds])"

text \<open>
  Invariant 6 of the specification in its own words: parameters are present exactly when
  the checksum is not empty; when present, they decode as a non-empty structured document
  and the checksum is exactly 64 hexadecimal characters.
\<close>

definition snapshotWellFormed :: "Collaborators \<Rightarrow> PropertiesState \<Rightarrow> bool" where
  "snapshotWellFormed ext ps =
     ((Parameters ps \<noteq> None \<longleftrightarrow> ParametersChecksum ps \<noteq> [])
      \<and> (case Parameters ps of
            None \<Rightarrow> True
          | Some params \<Rightarrow>
              (case yaml_Unmarshal ext (elems (Raw params)) of
                 Inl err \<Rightarrow> False
               | Inr document \<Rightarrow> document \<noteq> [])
              \<and> length (ParametersChecksum ps) = 64
              \<and> stringIsHexadecimal (ParametersChecksum ps)))"

text \<open>
  What the snapshot validators ask for instead: the raw bytes are not empty and the decoder
  returns no error; the decoded document is not looked at and may be empty.
\<close>

definition snapshotAccepted :: "Collaborators \<Rightarrow> PropertiesState \<Rightarrow> bool" where
  "snapshotAccepted ext ps =
     ((Parameters ps \<noteq> None \<longleftrightarrow> ParametersChecksum ps \<noteq> [])
      \<and> (case Parameters ps of
            None \<Rightarrow> True
          | Some params \<Rightarrow>
              len (Raw params) \<noteq> 0 \<and> \<not> isl (yaml_Unmarshal ext (elems (Raw params)))
              \<and> length (ParametersChecksum ps) = 64
              \<and> stringIsHexadecimal (ParametersChecksum ps)))"

definition hasErrorOfType :: "ErrorType \<Rightarrow> ErrorList \<Rightarrow> bool" where
  "hasErrorOfType t errs = list_ex (\<lambda>e. ErrType e = t) errs"

definition hasErrorAt :: "ErrorType \<Rightarrow> Path \<Rightarrow> ErrorList \<Rightarrow> bool" where
  "hasErrorAt t p errs = list_ex (\<lambda>e. ErrType e = t \<and> ErrField e = p) errs"

definition anotherOperationError :: Error where
  "anotherOperationError =
     field_Forbidden (NewPath ''Spec'') ''Another operation for this service instance is in progress''"

text \<open>
  The invariants of the specification that speak of the status alone, in its words: the
  operation is one of the legal set; an operation is present exactly when its start time
  is (Invariant 2); no Ready condition is True while an operation is present
  (Invariant 3); with no operation, no asynchronous operation is in progress and no last
  operation is recorded; in-progress properties are present exactly when the operation is
  Provision or Update (Invariant 4); and each snapshot that is present is one the
  snapshot validator accepts (\<open>snapshotAccepted\<close>: Invariant 6 with a document that
  decodes, empty or not).
\<close>

definition readyTrue :: "Condition \<Rightarrow> bool" where
  "readyTrue c = (CondType c = ServiceInstanceConditionReady \<and> CondStatus c = ConditionTrue)"

definition legalOperations :: "string set" where
  "legalOperations =
     {[], ServiceInstanceOperationProvision, ServiceInstanceOperationUpdate,
      ServiceInstanceOperationDeprovision}"

definition statusInvariants :: "Collaborators \<Rightarrow> ServiceInstanceStatus \<Rightarrow> bool" where
  "statusInvariants ext s =
     (CurrentOperation s \<in> legalOperations
      \<and> (CurrentOperation s \<noteq> [] \<longleftrightarrow> OperationStartTime s \<noteq> None)
      \<and> (CurrentOperation s \<noteq> [] \<longrightarrow> \<not> list_ex readyTrue (elems (Conditions s)))
      \<and> (CurrentOperation s = [] \<longrightarrow> \<not> AsyncOpInProgress s \<and> LastOperation s = None)
      \<and> (CurrentOperation s \<in> {ServiceInstanceOperationProvision, ServiceInstanceOperationUpdate}
           \<longleftrightarrow> InProgressProperties s \<noteq> None)
      \<and> (case InProgressProperties s of None \<Rightarrow> True | Some ps \<Rightarrow> snapshotAccepted ext ps)
      \<and> (case ExternalProperties s of None \<Rightarrow> True | Some ps \<Rightarrow> snapshotAccepted ext ps))"

section \<open>Sample objects\<close>

text \<open>
  Stand-ins for the collaborators, to run the validators on the concrete objects below:
  a name of lower-case letters, digits and dashes is accepted; the document \<^verbatim>\<open>{}\<close>
  decodes to the empty map, a document with a colon to one entry, and nothing else
  decodes.
\<close>

definition sampleNameCheck :: "string \<Rightarrow> bool \<Rightarrow> string list" where
  "sampleNameCheck v isPrefix =
     (if v \<noteq> [] \<and> list_all (\<lambda>c. c \<in> set ''abcdefghijklmnopqrstuvwxyz0123456789-'') v
      then [] else [''not a DNS subdomain''])"

definition sampleDecode :: "string \<Rightarrow> string + Document" where
  "sampleDecode raw =
     (if raw = ''{}'' then Inr []
      else if CHR '':'' \<in> set raw
      then Inr [(takeWhile (\<lambda>c. c \<noteq> CHR '':'') raw, tl (dropWhile (\<lambda>c. c \<noteq> CHR '':'') raw))]
      else Inl ''cannot unmarshal'')"

definition sampleUnmarshalRawParameters :: "string \<Rightarrow> string option" where
  "sampleUnmarshalRawParameters raw = (case sampleDecode raw of Inl err \<Rightarrow> Some err | Inr document \<Rightarrow> None)"

definition sampleCollaborators :: Collaborators where
  "sampleCollaborators =
     \<lparr>ValidateObjectMeta = (\<lambda>meta requiresNamespace nameFn fldPath.
          map (\<lambda>msg. field_Invalid (fldPath @ [Child ''name'']) (Name meta) msg) (nameFn (Name meta) False)
          @ (if requiresNamespace \<and> Namespace meta = []
             then [field_Required (fldPath @ [Child ''namespace'']) []] else [])),
      NameIsDNSSubdomain = sampleNameCheck,
      validateServiceClassName = sampleNameCheck,
      validateServicePlanName = sampleNameCheck,
      UnmarshalRawParameters = sampleUnmarshalRawParameters,
      yaml_Unmarshal = sampleDecode\<rparr>"

definition sampleMeta :: ObjectMeta where
  "sampleMeta =
     \<lparr>Name = ''test-instance'', Namespace = ''test-ns'', Generation = 1,
      DeletionTimestamp = None, Finalizers = None\<rparr>"

definition sampleSpec :: ServiceInstanceSpec where
  "sampleSpec =
     \<lparr>ServiceClassName = ''test-serviceclass'', PlanName = ''test-plan'',
      ParametersFrom = None, SpecParameters = None, SpecUserInfo = None\<rparr>"

definition sampleInstance :: ServiceInstance where
  "sampleInstance =
     \<lparr>ObjectMeta = sampleMeta, Spec = sampleSpec,
      Status = zeroServiceInstanceStatus\<lparr>ReconciledGeneration := 1\<rparr>\<rparr>"

definition sampleCredential :: ServiceInstanceCredential where
  "sampleCredential =
     \<lparr>ObjectMeta = sampleMeta,
      Spec = \<lparr>ServiceInstanceRef = \<lparr>RefName = ''test-instance''\<rparr>, SecretName = ''test-secret''\<rparr>,
      Status = \<lparr>Conditions = None, CurrentOperation = [], ReconciledGeneration = 1,
                OperationStartTime = None, InProgressProperties = None,
                ExternalProperties = None\<rparr>\<rparr>"

definition sampleContext :: Context where
  "sampleContext = \<lparr>OriginatingIdentity = False, UserFrom = None, Now = 1500000000\<rparr>"

definition sampleGate :: blockConcurrentUpdates where
  "sampleGate = SetInternalServiceCatalogInformerFactory NewBlockConcurrentUpdates"

definition synced :: Informers where
  "synced = \<lparr>instanceInformerHasSynced = True, instanceCredentialInformerHasSynced = True\<rparr>"

definition notSynced :: Informers where
  "notSynced = \<lparr>instanceInformerHasSynced = True, instanceCredentialInformerHasSynced = False\<rparr>"

definition instanceUpdate :: "string \<Rightarrow> ServiceInstance \<Rightarrow> Attributes" where
  "instanceUpdate subresource i =
     \<lparr>GetResource = \<lparr>Group = GroupName, Version = ''version'', Resource = ''serviceinstances''\<rparr>,
      GetSubresource = subresource, GetOperation = Update, GetObject = InstanceObject i\<rparr>"

definition credentialUpdate :: "string \<Rightarrow> ServiceInstanceCredential \<Rightarrow> Attributes" where
  "credentialUpdate subresource c =
     \<lparr>GetResource = \<lparr>Group = GroupName, Version = ''version'', Resource = ''serviceinstancecredentials''\<rparr>,
      GetSubresource = subresource, GetOperation = Update, GetObject = CredentialObject c\<rparr>"

definition pendingInstance :: ServiceInstance where
  "pendingInstance = sampleInstance\<lparr>ObjectMeta := sampleMeta\<lparr>Generation := 2\<rparr>\<rparr>"

definition deletingInstance :: ServiceInstance where
  "deletingInstance = sampleInstance\<lparr>ObjectMeta := sampleMeta\<lparr>DeletionTimestamp := Some 1500000000\<rparr>\<rparr>"

definition pendingCredential :: ServiceInstanceCredential where
  "pendingCredential = sampleCredential\<lparr>ObjectMeta := sampleMeta\<lparr>Generation := 2\<rparr>\<rparr>"

text \<open>
  Two updates of the sample instance: one that repeats its spec and carries a generation
  of its own, one that changes the plan; and the condition and the object that
  \<^verbatim>\<open>PrepareForUpdate\<close> makes of the second.
\<close>

definition regeneratedInstance :: ServiceInstance where
  "regeneratedInstance = sampleInstance\<lparr>ObjectMeta := sampleMeta\<lparr>Generation := 5\<rparr>\<rparr>"

definition replannedInstance :: ServiceInstance where
  "replannedInstance = sampleInstance\<lparr>Spec := sampleSpec\<lparr>PlanName := ''test-plan-2''\<rparr>\<rparr>"

definition replannedPrepared :: ServiceInstance where
  "replannedPrepared =
     replannedInstance\<lparr>ObjectMeta := sampleMeta\<lparr>Generation := 2\<rparr>,
       Status := (Status sampleInstance)\<lparr>Conditions := Some [updateInitiated (Now sampleContext)]\<rparr>\<rparr>"

text \<open>
  An old object that carries another condition and a Ready condition that is True, what
  \<^verbatim>\<open>PrepareForUpdate\<close> makes of the plan change against it, and the old object as the
  shared array leaves it.
\<close>

definition otherCondition :: Condition where
  "otherCondition =
     \<lparr>CondType = ''Failed'', CondStatus = ConditionFalse, LastTransitionTime = 1400000000,
      Reason = [], Message = []\<rparr>"

definition wasReady :: Condition where
  "wasReady =
     \<lparr>CondType = ServiceInstanceConditionReady, CondStatus = ConditionTrue,
      LastTransitionTime = 1400000000, Reason = [], Message = []\<rparr>"

definition readyInstance :: ServiceInstance where
  "readyInstance =
     sampleInstance\<lparr>Status := (Status sampleInstance)\<lparr>Conditions := Some [otherCondition, wasReady]\<rparr>\<rparr>"

definition readyPrepared :: ServiceInstance where
  "readyPrepared =
     replannedInstance\<lparr>ObjectMeta := sampleMeta\<lparr>Generation := 2\<rparr>,
       Status := (Status sampleInstance)
         \<lparr>Conditions := Some [otherCondition, updateInitiated (Now sampleContext)]\<rparr>\<rparr>"

definition readyInstanceAfter :: ServiceInstance where
  "readyInstanceAfter =
     sampleInstance\<lparr>Status := (Status sampleInstance)
       \<lparr>Conditions := Some [otherCondition, updateInitiated (Now sampleContext)]\<rparr>\<rparr>"

text \<open>
  Properties snapshots: a valid one, an empty one, one whose document is empty, and three
  that break Invariant 6.
\<close>

definition rawParameters :: RawExtension where
  "rawParameters = \<lparr>Raw = Some ''a: 1''\<rparr>"

definition sampleChecksum :: string where
  "sampleChecksum = ''0123456789abcdef0123456789abcdef0123456789abcdef0123456789abcdef''"

definition validSnapshot :: PropertiesState where
  "validSnapshot = \<lparr>Parameters = Some rawParameters, ParametersChecksum = sampleChecksum\<rparr>"

definition emptySnapshot :: PropertiesState where
  "emptySnapshot = \<lparr>Parameters = None, ParametersChecksum = []\<rparr>"

definition emptyDocumentSnapshot :: PropertiesState where
  "emptyDocumentSnapshot = \<lparr>Parameters = Some \<lparr>Raw = Some ''{}''\<rparr>, ParametersChecksum = sampleChecksum\<rparr>"

definition snapshotWithoutChecksum :: PropertiesState where
  "snapshotWithoutChecksum = \<lparr>Parameters = Some rawParameters, ParametersChecksum = []\<rparr>"

definition checksumWithoutParameters :: PropertiesState where
  "checksumWithoutParameters = \<lparr>Parameters = None, ParametersChecksum = sampleChecksum\<rparr>"

definition shortChecksum :: PropertiesState where
  "shortChecksum = \<lparr>Parameters = Some rawParameters, ParametersChecksum = ''0123456''\<rparr>"

definition inProgressPath :: Path where
  "inProgressPath = NewPath ''Status'' @ [Child ''inProgressProperties'']"

text \<open>
  An instance in the middle of an asynchronous provision, and an update of it that changes
  the plan and carries a name that is no DNS subdomain.
\<close>

definition asyncInstance :: ServiceInstance where
  "asyncInstance =
     \<lparr>ObjectMeta = sampleMeta\<lparr>Generation := 2\<rparr>, Spec = sampleSpec,
      Status = zeroServiceInstanceStatus
        \<lparr>ReconciledGeneration := 1, CurrentOperation := ServiceInstanceOperationProvision,
         OperationStartTime := Some 1500000000, AsyncOpInProgress := True,
         InProgressProperties := Some emptySnapshot\<rparr>\<rparr>"

definition misnamedUpdate :: ServiceInstance where
  "misnamedUpdate =
     asyncInstance\<lparr>ObjectMeta := (ObjectMeta asyncInstance)\<lparr>Name := ''Test_Instance''\<rparr>,
       Spec := sampleSpec\<lparr>PlanName := ''test-plan-2''\<rparr>\<rparr>"

text \<open>
  A status write whose reconciled generation (2) lies above the generation of the object (1)
  and below the reconciled generation of the stored object (3).
\<close>

definition backwardNew :: ServiceInstance where
  "backwardNew = sampleInstance\<lparr>Status := zeroServiceInstanceStatus\<lparr>ReconciledGeneration := 2\<rparr>\<rparr>"

definition backwardOld :: ServiceInstance where
  "backwardOld = sampleInstance\<lparr>Status := zeroServiceInstanceStatus\<lparr>ReconciledGeneration := 3\<rparr>\<rparr>"

text \<open>Statuses that break the invariants, and one that keeps them.\<close>

definition idleViolations :: ServiceInstanceStatus where
  "idleViolations =
     zeroServiceInstanceStatus
       \<lparr>OperationStartTime := Some 1500000000, InProgressProperties := Some emptySnapshot,
        AsyncOpInProgress := True, LastOperation := Some ''provisioning''\<rparr>"

definition badOperation :: ServiceInstanceStatus where
  "badOperation =
     zeroServiceInstanceStatus
       \<lparr>Conditions := Some [\<lparr>CondType = ServiceInstanceConditionReady, CondStatus = ConditionTrue,
                             LastTransitionTime = 1500000000, Reason = [], Message = []\<rparr>],
        CurrentOperation := ''bad-operation''\<rparr>"

definition provisionWithoutProperties :: ServiceInstanceStatus where
  "provisionWithoutProperties =
     zeroServiceInstanceStatus
       \<lparr>CurrentOperation := ServiceInstanceOperationProvision,
        OperationStartTime := Some 1500000000\<rparr>"

definition provisioning :: ServiceInstanceStatus where
  "provisioning =
     zeroServiceInstanceStatus
       \<lparr>CurrentOperation := ServiceInstanceOperationProvision,
        OperationStartTime := Some 1500000000, InProgressProperties := Some validSnapshot\<rparr>"

definition reconciledButBusy :: ServiceInstance where
  "reconciledButBusy =
     \<lparr>ObjectMeta = sampleMeta, Spec = sampleSpec, Status = provisioning\<lparr>ReconciledGeneration := 1\<rparr>\<rparr>"

definition sampleStatusErrors :: "ServiceInstanceStatus \<Rightarrow> ErrorList" where
  "sampleStatusErrors s = validateServiceInstanceStatus sampleCollaborators s (NewPath ''Status'') False"

section \<open>Evaluating the sample objects\<close>

lemmas sample_defs =
  sampleGate_def synced_def notSynced_def instanceUpdate_def credentialUpdate_def
  sampleInstance_def sampleCredential_def pendingInstance_def deletingInstance_def
  pendingCredential_def sampleMeta_def sampleSpec_def sampleContext_def
  zeroServiceInstanceStatus_def NewBlockConcurrentUpdates_def
  SetInternalServiceCatalogInformerFactory_def

section \<open>The admission gate: readiness, status writes, pending changes\<close>


lemma Admit_not_ready:
  "\<not> WaitForReady cu f \<Longrightarrow> Admit cu f a = Some (Forbidden ''not yet ready to handle request'')"
  by (simp add: Admit_def)


lemma sampleGate_ready: "WaitForReady sampleGate synced"
  by (simp add: WaitForReady_def sample_defs)

lemma sampleGate_not_ready: "\<not> WaitForReady sampleGate notSynced"
  by (simp add: WaitForReady_def sample_defs)

text \<open>
  Claim C1. Once the caches have synced, a request for a ServiceInstance whose subresource
  is not \<open>status\<close> gets a Conflict exactly when the new object has a deletion timestamp
  or its reconciled generation differs from its generation, and is allowed otherwise; a
  request for a ServiceInstanceCredential gets a Conflict exactly when the two generations
  differ, and is allowed otherwise. \<^verbatim>\<open>Admit\<close> does not read the operation, so this holds
  for the update requests the handler is registered for.
\<close>

theorem Admit_conflict_iff_pending_change:
  assumes "WaitForReady cu f" and "GetSubresource a \<noteq> ''status''"
  shows "(GroupResource (GetResource a) = servicecatalog_Resource ''serviceinstances''
            \<and> GetObject a = InstanceObject i \<longrightarrow>
          Admit cu f a =
            (if DeletionTimestamp (ObjectMeta i) \<noteq> None
                \<or> ReconciledGeneration (Status i) \<noteq> Generation (ObjectMeta i)
             then Some (Conflict (servicecatalog_Resource ''serviceinstances'')
                          (namespacedName (ObjectMeta i)) ''pending change'')
             else None))
       \<and> (GroupResource (GetResource a) = servicecatalog_Resource ''serviceinstancecredentials''
            \<and> GetObject a = CredentialObject c \<longrightarrow>
          Admit cu f a =
            (if ReconciledGeneration (Status c) \<noteq> Generation (ObjectMeta c)
             then Some (Conflict (servicecatalog_Resource ''serviceinstancecredentials'')
                          (namespacedName (ObjectMeta c)) ''pending change'')
             else None))"
  using assms
  by (auto simp: Admit_def GroupResource_def servicecatalog_Resource_def)

theorem Admit_conflict_iff_pending_change_witness:
  "WaitForReady sampleGate synced
   \<and> isConflict (Admit sampleGate synced (instanceUpdate [] pendingInstance))
   \<and> isConflict (Admit sampleGate synced (instanceUpdate [] deletingInstance))
   \<and> Admit sampleGate synced (instanceUpdate [] sampleInstance) = None
   \<and> isConflict (Admit sampleGate synced (credentialUpdate [] pendingCredential))
   \<and> Admit sampleGate synced (credentialUpdate [] sampleCredential) = None"
proof -
  have s: "GetSubresource (instanceUpdate [] i) \<noteq> ''status''"
          "GetSubresource (credentialUpdate [] c) \<noteq> ''status''" for i c
    by (simp_all add: instanceUpdate_def credentialUpdate_def)
  have r: "GroupResource (GetResource (instanceUpdate [] i)) = servicecatalog_Resource ''serviceinstances''"
          "GetObject (instanceUpdate [] i) = InstanceObject i"
          "GroupResource (GetResource (credentialUpdate [] c))
             = servicecatalog_Resource ''serviceinstancecredentials''"
          "GetObject (credentialUpdate [] c) = CredentialObject c" for i c
    by (simp_all add: instanceUpdate_def credentialUpdate_def GroupResource_def
        servicecatalog_Resource_def)
  note i = Admit_conflict_iff_pending_change
    [OF sampleGate_ready s(1), THEN conjunct1, rule_format, OF conjI, OF r(1) r(2)]
  note c = Admit_conflict_iff_pending_change
    [OF sampleGate_ready s(2), THEN conjunct2, rule_format, OF conjI, OF r(3) r(4)]
  show ?thesis
    using i [of pendingInstance] i [of deletingInstance] i [of sampleInstance]
      c [of pendingCredential] c [of sampleCredential]
    by (simp add: sampleGate_ready isConflict_def pendingInstance_def deletingInstance_def
        sampleInstance_def pendingCredential_def sampleCredential_def sampleMeta_def
        zeroServiceInstanceStatus_def)
qed

text \<open>
  Claim C2 as stated fails: the readiness check comes before the check of the subresource,
  so a status write that arrives before the caches have synced is rejected.
\<close>

theorem Admit_status_rejected_before_sync:
  "GetSubresource (instanceUpdate ''status'' pendingInstance) = ''status''
   \<and> Admit sampleGate notSynced (instanceUpdate ''status'' pendingInstance)
       = Some (Forbidden ''not yet ready to handle request'')"
  by (simp add: Admit_not_ready [OF sampleGate_not_ready] instanceUpdate_def)

text \<open>
  Claim C2, amended. Once the caches have synced, every request for the \<open>status\<close>
  subresource is allowed, whatever the kind, the generations or the deletion timestamp of
  its object.
\<close>

theorem Admit_status_allowed_when_ready:
  "WaitForReady cu f \<Longrightarrow> GetSubresource a = ''status'' \<Longrightarrow> Admit cu f a = None"
  by (simp add: Admit_def)

theorem Admit_status_allowed_when_ready_witness:
  "WaitForReady sampleGate synced
   \<and> GetSubresource (instanceUpdate ''status'' pendingInstance) = ''status''
   \<and> Admit sampleGate synced (instanceUpdate ''status'' pendingInstance) = None
   \<and> Admit sampleGate synced (credentialUpdate ''status'' pendingCredential) = None"
proof -
  have s: "GetSubresource (instanceUpdate ''status'' pendingInstance) = ''status''"
          "GetSubresource (credentialUpdate ''status'' pendingCredential) = ''status''"
    by (simp_all add: instanceUpdate_def credentialUpdate_def)
  show ?thesis
    using Admit_status_allowed_when_ready [OF sampleGate_ready s(1)]
      Admit_status_allowed_when_ready [OF sampleGate_ready s(2)] sampleGate_ready s(1)
    by simp
qed




section \<open>The lifecycle strategy: create\<close>

text \<open>
  Claim C4. For every ServiceInstance handed to \<^verbatim>\<open>PrepareForCreate\<close>, whatever status,
  finalizers or generation it carries: the call returns; the status is the zero status
  with an empty, non-nil list of conditions; the generation is 1; the finalizers contain
  the service-catalog finalizer; and a second call, in any context, leaves the status and
  the generation as the first call made them.
\<close>

theorem PrepareForCreate_resets_status_and_generation:
  "\<exists>created.
     PrepareForCreate ctx (InstanceObject instance) = Inr created
     \<and> Status created = zeroServiceInstanceStatus\<lparr>Conditions := Some []\<rparr>
     \<and> Conditions (Status created) = Some []
     \<and> Generation (ObjectMeta created) = 1
     \<and> FinalizerServiceCatalog \<in> set (elems (Finalizers (ObjectMeta created)))
     \<and> (\<exists>again.
           PrepareForCreate ctx' (InstanceObject created) = Inr again
           \<and> Status again = Status created
           \<and> Generation (ObjectMeta again) = Generation (ObjectMeta created))"
  by (simp add: PrepareForCreate_def Let_def elems_def)

section \<open>The lifecycle strategy: update\<close>

lemma findReady_Some:
  "findReady i conds = Some k \<Longrightarrow>
   i \<le> k \<and> k - i < length conds \<and> CondType (conds ! (k - i)) = ServiceInstanceConditionReady"
proof (induction conds arbitrary: i)
  case Nil
  then show ?case by simp
next
  case (Cons c cs)
  show ?case
  proof (cases "CondType c = ServiceInstanceConditionReady")
    case True
    with Cons.prems show ?thesis by simp
  next
    case False
    with Cons.prems have "findReady (Suc i) cs = Some k" by simp
    from Cons.IH [OF this] show ?thesis by (auto simp: Suc_diff_Suc less_eq_Suc_le)
  qed
qed

lemma findReady_None_iff:
  "findReady i conds = None \<longleftrightarrow> list_all notReady conds"
  by (induction conds arbitrary: i) (auto simp: notReady_def)

lemma findReady_first:
  "findReady i conds = Some k \<Longrightarrow> list_all notReady (take (k - i) conds)"
proof (induction conds arbitrary: i)
  case Nil
  then show ?case by simp
next
  case (Cons c cs)
  show ?case
  proof (cases "CondType c = ServiceInstanceConditionReady")
    case True
    with Cons.prems show ?thesis by simp
  next
    case False
    with Cons.prems have f: "findReady (Suc i) cs = Some k" by simp
    from findReady_Some [OF f] have "k - i = Suc (k - Suc i)" by arith
    with Cons.IH [OF f] False show ?thesis by (simp add: notReady_def)
  qed
qed

text \<open>Only one index is that of a first Ready condition.\<close>

lemma first_ready_unique:
  assumes "k < length conds" "\<not> notReady (conds ! k)" "list_all notReady (take k conds)"
    and "k' < length conds" "\<not> notReady (conds ! k')" "list_all notReady (take k' conds)"
  shows "k = k'"
proof (rule ccontr)
  assume "k \<noteq> k'"
  then consider "k < k'" | "k' < k" by linarith
  then show False
  proof cases
    case 1
    with assms(4,6) have "notReady (conds ! k)" by (simp add: list_all_length)
    with assms(2) show False by simp
  next
    case 2
    with assms(1,3) have "notReady (conds ! k')" by (simp add: list_all_length)
    with assms(5) show False by simp
  qed
qed

lemma setReady_upserted:
  "\<exists>conds'. Conditions (Status (setServiceInstanceReadyFalseCondition now instance)) = Some conds'
     \<and> upsertedReady now (elems (Conditions (Status instance))) conds'"
proof -
  let ?conds = "elems (Conditions (Status instance))"
  show ?thesis
  proof (cases "findReady 0 ?conds")
    case None
    then have all: "list_all notReady ?conds" by (simp add: findReady_None_iff)
    then have no: "\<not> (k < length ?conds \<and> \<not> notReady (?conds ! k))" for k
      by (auto simp: list_all_length)
    from None have "Conditions (Status (setServiceInstanceReadyFalseCondition now instance))
        = Some (?conds @ [updateInitiated now])"
      by (simp add: setServiceInstanceReadyFalseCondition_def Let_def updateInitiated_def)
    moreover have "upsertedReady now ?conds (?conds @ [updateInitiated now])"
      using no by (auto simp: upsertedReady_def list_all_iff)
    ultimately show ?thesis by simp
  next
    case (Some k)
    from findReady_Some [OF Some] findReady_first [OF Some]
    have k: "k < length ?conds" "\<not> notReady (?conds ! k)" "list_all notReady (take k ?conds)"
      by (simp_all add: notReady_def)
    let ?c = "updateInitiated (if CondStatus (?conds ! k) = ConditionFalse
                               then LastTransitionTime (?conds ! k) else now)"
    from Some k(1) have "Conditions (Status (setServiceInstanceReadyFalseCondition now instance))
        = Some (?conds[k := ?c])"
      by (auto simp: setServiceInstanceReadyFalseCondition_def Let_def updateInitiated_def)
    moreover have "upsertedReady now ?conds (?conds[k := ?c])"
    proof -
      from k(1,2) have "\<not> list_all notReady ?conds" by (auto simp: list_all_length)
      moreover have "k' = k" if "k' < length ?conds" "\<not> notReady (?conds ! k')"
        "list_all notReady (take k' ?conds)" for k'
        using first_ready_unique [OF that k] .
      ultimately show ?thesis by (auto simp: upsertedReady_def list_all_iff)
    qed
    ultimately show ?thesis by simp
  qed
qed

lemma filter_update_same:
  "k < length xs \<Longrightarrow> \<not> P (xs ! k) \<Longrightarrow> \<not> P c \<Longrightarrow> filter P (xs[k := c]) = filter P xs"
proof (induction xs arbitrary: k)
  case Nil
  then show ?case by simp
next
  case (Cons x xs)
  then show ?case by (cases k) auto
qed

text \<open>An upsert keeps every condition that is not a Ready condition, in its order.\<close>

lemma upsertedReady_keeps_others:
  assumes "upsertedReady now conds conds'"
  shows "filter notReady conds' = filter notReady conds"
proof (cases "findReady 0 conds")
  case None
  then have "list_all notReady conds" by (simp add: findReady_None_iff)
  with assms have "conds' = conds @ [updateInitiated now]" by (simp add: upsertedReady_def)
  then show ?thesis by (simp add: notReady_def updateInitiated_def)
next
  case (Some k)
  from findReady_Some [OF Some] findReady_first [OF Some]
  have k: "k < length conds" "\<not> notReady (conds ! k)" "list_all notReady (take k conds)"
    by (simp_all add: notReady_def)
  with assms have "conds' = conds[k := updateInitiated
      (if CondStatus (conds ! k) = ConditionFalse then LastTransitionTime (conds ! k) else now)]"
    by (simp add: upsertedReady_def list_all_iff)
  with k show ?thesis
    by (simp add: filter_update_same notReady_def updateInitiated_def)
qed

lemma list_ex_update:
  "k < length xs \<Longrightarrow> P c \<Longrightarrow> list_ex P (xs[k := c])"
  by (auto simp: list_ex_iff intro: set_update_memI)

lemma setReady_hasReadyFalse:
  "hasReadyFalse (Conditions (Status (setServiceInstanceReadyFalseCondition now instance)))"
proof -
  let ?conds = "elems (Conditions (Status instance))"
  show ?thesis
  proof (cases "findReady 0 ?conds")
    case None
    then show ?thesis
      by (simp add: setServiceInstanceReadyFalseCondition_def Let_def hasReadyFalse_def elems_def
          split: option.splits)
  next
    case (Some k)
    then have "k < length ?conds" using findReady_Some [of 0 ?conds k] by simp
    with Some show ?thesis
      by (simp add: setServiceInstanceReadyFalseCondition_def Let_def hasReadyFalse_def
          list_ex_update elems_def split: option.splits)
  qed
qed

text \<open>The upsert changes the conditions of the instance and nothing else.\<close>

lemma setReady_Status:
  "Status (setServiceInstanceReadyFalseCondition now instance) =
   (Status instance)\<lparr>Conditions :=
      Conditions (Status (setServiceInstanceReadyFalseCondition now instance))\<rparr>"
  by (simp add: setServiceInstanceReadyFalseCondition_def Let_def split: option.splits)

lemma setReady_ObjectMeta:
  "ObjectMeta (setServiceInstanceReadyFalseCondition now instance) = ObjectMeta instance"
  by (simp add: setServiceInstanceReadyFalseCondition_def Let_def split: option.splits)

lemma setUserInfo_rest:
  "ObjectMeta (setServiceInstanceUserInfo i ctx) = ObjectMeta i"
  "Status (setServiceInstanceUserInfo i ctx) = Status i"
  by (simp_all add: setServiceInstanceUserInfo_def split: option.splits)

lemma sample_equal: "Semantic_DeepEqual (Spec sampleInstance) (Spec regeneratedInstance)"
  by (simp add: Semantic_DeepEqual_def sampleInstance_def regeneratedInstance_def sampleSpec_def
      deepEqualSlice_def deepEqualPtr_def elems_def)

lemma sample_differs: "\<not> Semantic_DeepEqual (Spec sampleInstance) (Spec replannedInstance)"
  by (simp add: Semantic_DeepEqual_def sampleInstance_def replannedInstance_def sampleSpec_def)

lemma prepare_regenerated:
  "PrepareForUpdate sampleContext (InstanceObject regeneratedInstance) (InstanceObject sampleInstance)
     = Inr (regeneratedInstance, sampleInstance)"
  using sample_equal
  by (simp add: PrepareForUpdate_def Let_def) (simp add: regeneratedInstance_def sampleInstance_def)

lemma prepare_replanned:
  "PrepareForUpdate sampleContext (InstanceObject replannedInstance) (InstanceObject sampleInstance)
     = Inr (replannedPrepared, sampleInstance)"
  using sample_differs
  by (simp add: PrepareForUpdate_def Let_def)
    (simp add: replannedPrepared_def replannedInstance_def sampleInstance_def sampleContext_def
      setServiceInstanceReadyFalseCondition_def writesInPlace_def Let_def elems_def
      zeroServiceInstanceStatus_def updateInitiated_def sampleMeta_def)

lemma ready_differs: "\<not> Semantic_DeepEqual (Spec readyInstance) (Spec replannedInstance)"
  by (simp add: Semantic_DeepEqual_def sampleInstance_def readyInstance_def replannedInstance_def
      sampleSpec_def)

lemma prepare_ready:
  "PrepareForUpdate sampleContext (InstanceObject replannedInstance) (InstanceObject readyInstance)
     = Inr (readyPrepared, readyInstanceAfter)"
  using ready_differs
  by (simp add: PrepareForUpdate_def Let_def)
    (simp add: readyPrepared_def readyInstanceAfter_def readyInstance_def replannedInstance_def
      sampleInstance_def sampleContext_def setServiceInstanceReadyFalseCondition_def
      writesInPlace_def Let_def elems_def zeroServiceInstanceStatus_def updateInitiated_def
      sampleMeta_def otherCondition_def wasReady_def ServiceInstanceConditionReady_def
      ConditionTrue_def ConditionFalse_def)

text \<open>
  Claim C5 as stated fails twice. An update that repeats the spec keeps the generation the
  caller sent (here 5), not the generation of the old object (here 1): the function only
  writes the generation when the specs differ. And an update that changes the spec of an
  object without conditions leaves the new object with a status that differs from the old
  one, by the Ready condition just added.
\<close>

theorem PrepareForUpdate_generation_and_status_differ:
  "Semantic_DeepEqual (Spec sampleInstance) (Spec regeneratedInstance)
   \<and> PrepareForUpdate sampleContext (InstanceObject regeneratedInstance) (InstanceObject sampleInstance)
       = Inr (regeneratedInstance, sampleInstance)
   \<and> Generation (ObjectMeta regeneratedInstance) \<noteq> Generation (ObjectMeta sampleInstance)
   \<and> \<not> Semantic_DeepEqual (Spec sampleInstance) (Spec replannedInstance)
   \<and> PrepareForUpdate sampleContext (InstanceObject replannedInstance) (InstanceObject sampleInstance)
       = Inr (replannedPrepared, sampleInstance)
   \<and> Status replannedPrepared \<noteq> Status sampleInstance"
proof -
  have g: "Generation (ObjectMeta regeneratedInstance) \<noteq> Generation (ObjectMeta sampleInstance)"
    by (simp add: regeneratedInstance_def sampleInstance_def sampleMeta_def)
  have s: "Status replannedPrepared \<noteq> Status sampleInstance"
    by (simp add: replannedPrepared_def sampleInstance_def zeroServiceInstanceStatus_def)
  from sample_equal sample_differs prepare_regenerated prepare_replanned g s
  show ?thesis by blast
qed

text \<open>
  Claim C5, amended. For every pair of ServiceInstance objects, \<^verbatim>\<open>PrepareForUpdate\<close>
  returns, and afterwards every field of the new status other than its conditions equals
  that of the old status. If the specs are deep-equal, the new status equals the old
  status, conditions included, the generation of the new object is the one the caller
  supplied, and the old object is untouched. If the specs differ, the new generation is
  the old generation plus one, and the new conditions are the old conditions with the
  Ready condition upserted (\<open>upsertedReady\<close>): they contain a Ready condition with status
  False, and every condition that is not a Ready condition is kept, in its order.
\<close>

theorem PrepareForUpdate_status_and_generation:
  "\<exists>new' old'.
     PrepareForUpdate ctx (InstanceObject new) (InstanceObject old) = Inr (new', old')
     \<and> Status new' = (Status old)\<lparr>Conditions := Conditions (Status new')\<rparr>
     \<and> (Semantic_DeepEqual (Spec old) (Spec new) \<longrightarrow>
          Status new' = Status old
          \<and> Generation (ObjectMeta new') = Generation (ObjectMeta new)
          \<and> old' = old)
     \<and> (\<not> Semantic_DeepEqual (Spec old) (Spec new) \<longrightarrow>
          Generation (ObjectMeta new') = Generation (ObjectMeta old) + 1
          \<and> Conditions (Status new') \<noteq> None
          \<and> upsertedReady (Now ctx) (elems (Conditions (Status old)))
               (elems (Conditions (Status new')))
          \<and> hasReadyFalse (Conditions (Status new'))
          \<and> filter notReady (elems (Conditions (Status new')))
               = filter notReady (elems (Conditions (Status old))))"
proof (cases "Semantic_DeepEqual (Spec old) (Spec new)")
  case True
  then show ?thesis by (simp add: PrepareForUpdate_def Let_def)
next
  case False
  define n where "n =
    (if OriginatingIdentity ctx
     then setServiceInstanceUserInfo (new\<lparr>Status := Status old\<rparr>) ctx
     else new\<lparr>Status := Status old\<rparr>)
    \<lparr>ObjectMeta := (ObjectMeta new)\<lparr>Generation := Generation (ObjectMeta old) + 1\<rparr>\<rparr>"
  define new' where "new' = setServiceInstanceReadyFalseCondition (Now ctx) n"
  have st: "Status n = Status old"
    and om: "Generation (ObjectMeta n) = Generation (ObjectMeta old) + 1"
    by (simp_all add: n_def setUserInfo_rest)
  have r: "\<exists>old'. PrepareForUpdate ctx (InstanceObject new) (InstanceObject old) = Inr (new', old')"
    using False by (simp add: PrepareForUpdate_def Let_def new'_def n_def setUserInfo_rest)
  have s: "Status new' = (Status old)\<lparr>Conditions := Conditions (Status new')\<rparr>"
    unfolding new'_def using setReady_Status [of "Now ctx" n] st by simp
  have g: "Generation (ObjectMeta new') = Generation (ObjectMeta old) + 1"
    by (simp add: new'_def setReady_ObjectMeta om)
  have h: "hasReadyFalse (Conditions (Status new'))"
    by (simp add: new'_def setReady_hasReadyFalse)
  from setReady_upserted [of "Now ctx" n] st
  obtain conds' where c: "Conditions (Status new') = Some conds'"
    and u: "upsertedReady (Now ctx) (elems (Conditions (Status old))) conds'"
    by (auto simp: new'_def)
  from c have c': "Conditions (Status new') \<noteq> None" "elems (Conditions (Status new')) = conds'"
    by (simp_all add: elems_def)
  from upsertedReady_keeps_others [OF u]
  have k: "filter notReady (elems (Conditions (Status new')))
             = filter notReady (elems (Conditions (Status old)))"
    by (simp add: c')
  from r s g h c' u k False show ?thesis by auto
qed

theorem PrepareForUpdate_status_and_generation_witness:
  "Semantic_DeepEqual (Spec sampleInstance) (Spec regeneratedInstance)
   \<and> PrepareForUpdate sampleContext (InstanceObject regeneratedInstance) (InstanceObject sampleInstance)
       = Inr (regeneratedInstance, sampleInstance)
   \<and> Status regeneratedInstance = Status sampleInstance
   \<and> \<not> Semantic_DeepEqual (Spec sampleInstance) (Spec replannedInstance)
   \<and> PrepareForUpdate sampleContext (InstanceObject replannedInstance) (InstanceObject sampleInstance)
       = Inr (replannedPrepared, sampleInstance)
   \<and> Generation (ObjectMeta replannedPrepared) = Generation (ObjectMeta sampleInstance) + 1
   \<and> hasReadyFalse (Conditions (Status replannedPrepared))
   \<and> \<not> Semantic_DeepEqual (Spec readyInstance) (Spec replannedInstance)
   \<and> PrepareForUpdate sampleContext (InstanceObject replannedInstance) (InstanceObject readyInstance)
       = Inr (readyPrepared, readyInstanceAfter)
   \<and> upsertedReady (Now sampleContext) [otherCondition, wasReady]
       (elems (Conditions (Status readyPrepared)))
   \<and> filter notReady (elems (Conditions (Status readyPrepared))) = [otherCondition]"
proof -
  from PrepareForUpdate_status_and_generation [of sampleContext regeneratedInstance sampleInstance]
    prepare_regenerated sample_equal
  have a: "Status regeneratedInstance = Status sampleInstance" by auto
  from PrepareForUpdate_status_and_generation [of sampleContext replannedInstance sampleInstance]
    prepare_replanned sample_differs
  have b: "Generation (ObjectMeta replannedPrepared) = Generation (ObjectMeta sampleInstance) + 1
           \<and> hasReadyFalse (Conditions (Status replannedPrepared))" by auto
  have o: "elems (Conditions (Status readyInstance)) = [otherCondition, wasReady]"
    "filter notReady [otherCondition, wasReady] = [otherCondition]"
    by (simp_all add: readyInstance_def elems_def notReady_def otherCondition_def wasReady_def
        ServiceInstanceConditionReady_def)
  from PrepareForUpdate_status_and_generation [of sampleContext replannedInstance readyInstance]
    prepare_ready ready_differs
  have c: "upsertedReady (Now sampleContext) (elems (Conditions (Status readyInstance)))
             (elems (Conditions (Status readyPrepared)))
           \<and> filter notReady (elems (Conditions (Status readyPrepared)))
               = filter notReady (elems (Conditions (Status readyInstance)))" by auto
  from a b c [unfolded o] sample_equal sample_differs ready_differs prepare_regenerated
    prepare_replanned prepare_ready
  show ?thesis by blast
qed

section \<open>Properties snapshots\<close>

lemmas field_defs = field_Required_def field_Invalid_def field_Forbidden_def field_NotSupported_def

lemmas op_defs = ServiceInstanceOperationProvision_def ServiceInstanceOperationUpdate_def
  ServiceInstanceOperationDeprovision_def

lemma field_sel:
  "ErrType (field_Required p d) = ErrorTypeRequired" "ErrField (field_Required p d) = p"
  "ErrType (field_Forbidden p d) = ErrorTypeForbidden" "ErrField (field_Forbidden p d) = p"
  "ErrType (field_Invalid p v d) = ErrorTypeInvalid" "ErrField (field_Invalid p v d) = p"
  "ErrType (field_NotSupported p v vs) = ErrorTypeNotSupported"
  "ErrField (field_NotSupported p v vs) = p"
  by (simp_all add: field_defs)

lemma hasErrorAt_member: "e \<in> set errs \<Longrightarrow> ErrType e = t \<Longrightarrow> ErrField e = p \<Longrightarrow> hasErrorAt t p errs"
  by (auto simp: hasErrorAt_def list_ex_iff)

lemma hasErrorAt_append:
  "hasErrorAt t p (xs @ ys) \<longleftrightarrow> hasErrorAt t p xs \<or> hasErrorAt t p ys"
  by (simp add: hasErrorAt_def)

lemma hasErrorAt_Cons:
  "hasErrorAt t p (e # es) \<longleftrightarrow> (ErrType e = t \<and> ErrField e = p) \<or> hasErrorAt t p es"
  by (simp add: hasErrorAt_def)

lemma credential_properties_same:
  "validateServiceInstanceCredentialPropertiesState ext ps p c
     = validateServiceInstancePropertiesState ext ps p c"
  by (simp add: validateServiceInstanceCredentialPropertiesState_def
      validateServiceInstancePropertiesState_def)

lemma properties_empty_iff:
  "validateServiceInstancePropertiesState ext ps p c = [] \<longleftrightarrow> snapshotAccepted ext ps"
  by (cases "Parameters ps")
    (auto simp: validateServiceInstancePropertiesState_def snapshotAccepted_def
       split: sum.splits)

lemma properties_forbidden:
  "Parameters ps = None \<Longrightarrow> ParametersChecksum ps \<noteq> [] \<Longrightarrow>
   hasErrorOfType ErrorTypeForbidden (validateServiceInstancePropertiesState ext ps p c)"
  by (simp add: validateServiceInstancePropertiesState_def hasErrorOfType_def field_defs)

lemma properties_invalid:
  "Parameters ps \<noteq> None \<Longrightarrow> ParametersChecksum ps \<noteq> [] \<Longrightarrow>
   length (ParametersChecksum ps) \<noteq> 64 \<or> \<not> stringIsHexadecimal (ParametersChecksum ps) \<Longrightarrow>
   hasErrorOfType ErrorTypeInvalid (validateServiceInstancePropertiesState ext ps p c)"
  by (auto simp: validateServiceInstancePropertiesState_def hasErrorOfType_def field_defs)

text \<open>
  With parameters present and the checksum empty, the checksum gets its Forbidden error and
  no Invalid error: the only Invalid error left is that of the raw document, at another
  path.
\<close>

lemma properties_empty_checksum:
  assumes "Parameters ps \<noteq> None" "ParametersChecksum ps = []"
  shows "hasErrorAt ErrorTypeForbidden (p @ [Child ''parametersChecksum''])
           (validateServiceInstancePropertiesState ext ps p c)"
    and "\<not> hasErrorAt ErrorTypeInvalid (p @ [Child ''parametersChecksum''])
           (validateServiceInstancePropertiesState ext ps p c)"
    and "hasErrorOfType ErrorTypeForbidden (validateServiceInstancePropertiesState ext ps p c)"
  using assms
  by (auto simp: validateServiceInstancePropertiesState_def hasErrorAt_def hasErrorOfType_def
      field_sel split: sum.splits if_splits)

lemma sampleChecksum_ok: "length sampleChecksum = 64 \<and> stringIsHexadecimal sampleChecksum"
  by (simp add: sampleChecksum_def stringIsHexadecimal_def isHexDigit_def)

lemma sampleDecode_values:
  "yaml_Unmarshal sampleCollaborators ''{}'' = Inr []"
  "yaml_Unmarshal sampleCollaborators ''a: 1'' = Inr [(''a'', '' 1'')]"
  by (simp_all add: sampleCollaborators_def sampleDecode_def)

lemma validSnapshot_accepted: "snapshotAccepted sampleCollaborators validSnapshot"
  using sampleChecksum_ok
  by (simp add: snapshotAccepted_def validSnapshot_def rawParameters_def len_def elems_def
      sampleDecode_values) (simp add: sampleChecksum_def)

lemma emptyDocument_accepted: "snapshotAccepted sampleCollaborators emptyDocumentSnapshot"
  using sampleChecksum_ok
  by (simp add: snapshotAccepted_def emptyDocumentSnapshot_def len_def elems_def
      sampleDecode_values) (simp add: sampleChecksum_def)

lemma emptyDocument_errors:
  "validateServiceInstancePropertiesState sampleCollaborators emptyDocumentSnapshot inProgressPath False = []"
  using emptyDocument_accepted by (simp add: properties_empty_iff)

lemma emptyDocument_not_well_formed: "\<not> snapshotWellFormed sampleCollaborators emptyDocumentSnapshot"
  by (simp add: snapshotWellFormed_def emptyDocumentSnapshot_def elems_def sampleDecode_values)

lemma without_checksum_errors:
  "validateServiceInstancePropertiesState sampleCollaborators snapshotWithoutChecksum inProgressPath False
     = [field_Forbidden (inProgressPath @ [Child ''parametersChecksum''])
          ''parametersChecksum must not be empty when there are parameters'']"
  by (simp add: validateServiceInstancePropertiesState_def snapshotWithoutChecksum_def
      rawParameters_def len_def elems_def sampleDecode_values)

text \<open>
  Claim C7 as stated fails twice. A snapshot whose parameters are the document \<^verbatim>\<open>{}\<close>
  decodes as an empty document, so it is not well formed in the words of the claim, and
  yet the validator returns no error for it: the validator looks at the raw bytes and at
  the error of the decoder, never at the decoded map. And at the empty checksum, whose
  length is not 64, with parameters present, the validator answers with a Forbidden error
  (``must not be empty when there are parameters'') and no Invalid error, since the checks
  of length and of digits run on a non-empty checksum only.
\<close>

theorem propertiesState_empty_document_and_empty_checksum:
  "validateServiceInstancePropertiesState sampleCollaborators emptyDocumentSnapshot inProgressPath False = []
   \<and> yaml_Unmarshal sampleCollaborators ''{}'' = Inr []
   \<and> \<not> snapshotWellFormed sampleCollaborators emptyDocumentSnapshot
   \<and> Parameters snapshotWithoutChecksum \<noteq> None
   \<and> length (ParametersChecksum snapshotWithoutChecksum) \<noteq> 64
   \<and> validateServiceInstancePropertiesState sampleCollaborators snapshotWithoutChecksum inProgressPath False
       = [field_Forbidden (inProgressPath @ [Child ''parametersChecksum''])
            ''parametersChecksum must not be empty when there are parameters'']
   \<and> \<not> hasErrorOfType ErrorTypeInvalid
         (validateServiceInstancePropertiesState sampleCollaborators snapshotWithoutChecksum
            inProgressPath False)"
proof -
  have a: "Parameters snapshotWithoutChecksum \<noteq> None"
    "length (ParametersChecksum snapshotWithoutChecksum) \<noteq> 64"
    by (simp_all add: snapshotWithoutChecksum_def)
  have b: "\<not> hasErrorOfType ErrorTypeInvalid
         (validateServiceInstancePropertiesState sampleCollaborators snapshotWithoutChecksum
            inProgressPath False)"
    by (simp add: without_checksum_errors hasErrorOfType_def field_sel)
  from emptyDocument_errors sampleDecode_values(1) emptyDocument_not_well_formed a
    without_checksum_errors b
  show ?thesis by blast
qed

text \<open>
  Claim C7, amended. For every properties snapshot, of an instance or of a credential, the
  validator returns no error exactly when parameters are present exactly when the checksum
  is not empty and, when parameters are present, their raw bytes are not empty and decode
  without error (the decoded document may be empty) and the checksum is exactly 64
  hexadecimal characters (\<open>snapshotAccepted\<close>). Absent parameters with a non-empty
  checksum give a Forbidden error; present parameters with a non-empty checksum whose
  length is not 64 or which has a non-hexadecimal character give an Invalid error; present
  parameters with an empty checksum give a Forbidden error for the checksum and no Invalid
  error for it.
\<close>

theorem propertiesState_valid_iff_accepted:
  "(validateServiceInstancePropertiesState ext ps p c = [] \<longleftrightarrow> snapshotAccepted ext ps)
   \<and> (validateServiceInstanceCredentialPropertiesState ext ps p c = [] \<longleftrightarrow> snapshotAccepted ext ps)
   \<and> (Parameters ps = None \<and> ParametersChecksum ps \<noteq> [] \<longrightarrow>
        hasErrorOfType ErrorTypeForbidden (validateServiceInstancePropertiesState ext ps p c)
        \<and> hasErrorOfType ErrorTypeForbidden (validateServiceInstanceCredentialPropertiesState ext ps p c))
   \<and> (Parameters ps \<noteq> None \<and> ParametersChecksum ps \<noteq> []
        \<and> (length (ParametersChecksum ps) \<noteq> 64 \<or> \<not> stringIsHexadecimal (ParametersChecksum ps)) \<longrightarrow>
        hasErrorOfType ErrorTypeInvalid (validateServiceInstancePropertiesState ext ps p c)
        \<and> hasErrorOfType ErrorTypeInvalid (validateServiceInstanceCredentialPropertiesState ext ps p c))
   \<and> (Parameters ps \<noteq> None \<and> ParametersChecksum ps = [] \<longrightarrow>
        hasErrorOfType ErrorTypeForbidden (validateServiceInstancePropertiesState ext ps p c)
        \<and> hasErrorAt ErrorTypeForbidden (p @ [Child ''parametersChecksum''])
            (validateServiceInstancePropertiesState ext ps p c)
        \<and> \<not> hasErrorAt ErrorTypeInvalid (p @ [Child ''parametersChecksum''])
              (validateServiceInstancePropertiesState ext ps p c)
        \<and> hasErrorOfType ErrorTypeForbidden (validateServiceInstanceCredentialPropertiesState ext ps p c)
        \<and> hasErrorAt ErrorTypeForbidden (p @ [Child ''parametersChecksum''])
            (validateServiceInstanceCredentialPropertiesState ext ps p c)
        \<and> \<not> hasErrorAt ErrorTypeInvalid (p @ [Child ''parametersChecksum''])
              (validateServiceInstanceCredentialPropertiesState ext ps p c))"
  using properties_empty_iff [of ext ps p c] properties_forbidden [of ps ext p c]
    properties_invalid [of ps ext p c]
    properties_empty_checksum [where ps = ps and p = p and ext = ext and c = c]
  by (simp add: credential_properties_same)

theorem propertiesState_valid_iff_accepted_witness:
  "snapshotAccepted sampleCollaborators validSnapshot
   \<and> validateServiceInstancePropertiesState sampleCollaborators validSnapshot inProgressPath False = []
   \<and> snapshotAccepted sampleCollaborators emptyDocumentSnapshot
   \<and> validateServiceInstanceCredentialPropertiesState sampleCollaborators emptyDocumentSnapshot
       inProgressPath False = []
   \<and> Parameters checksumWithoutParameters = None \<and> ParametersChecksum checksumWithoutParameters \<noteq> []
   \<and> hasErrorOfType ErrorTypeForbidden
       (validateServiceInstancePropertiesState sampleCollaborators checksumWithoutParameters inProgressPath False)
   \<and> Parameters shortChecksum \<noteq> None \<and> ParametersChecksum shortChecksum \<noteq> []
   \<and> length (ParametersChecksum shortChecksum) \<noteq> 64
   \<and> hasErrorOfType ErrorTypeInvalid
       (validateServiceInstanceCredentialPropertiesState sampleCollaborators shortChecksum inProgressPath False)
   \<and> Parameters snapshotWithoutChecksum \<noteq> None \<and> ParametersChecksum snapshotWithoutChecksum = []
   \<and> hasErrorAt ErrorTypeForbidden (inProgressPath @ [Child ''parametersChecksum''])
       (validateServiceInstancePropertiesState sampleCollaborators snapshotWithoutChecksum inProgressPath False)
   \<and> \<not> hasErrorAt ErrorTypeInvalid (inProgressPath @ [Child ''parametersChecksum''])
         (validateServiceInstancePropertiesState sampleCollaborators snapshotWithoutChecksum inProgressPath False)"
proof -
  have a: "Parameters checksumWithoutParameters = None \<and> ParametersChecksum checksumWithoutParameters \<noteq> []"
    by (simp add: checksumWithoutParameters_def sampleChecksum_def)
  have b: "Parameters shortChecksum \<noteq> None \<and> ParametersChecksum shortChecksum \<noteq> []
           \<and> length (ParametersChecksum shortChecksum) \<noteq> 64"
    by (simp add: shortChecksum_def)
  have d: "Parameters snapshotWithoutChecksum \<noteq> None \<and> ParametersChecksum snapshotWithoutChecksum = []"
    by (simp add: snapshotWithoutChecksum_def)
  note th = propertiesState_valid_iff_accepted
    [where ext = sampleCollaborators and p = inProgressPath and c = False]
  from th [of validSnapshot] validSnapshot_accepted
  have 1: "validateServiceInstancePropertiesState sampleCollaborators validSnapshot inProgressPath False = []"
    by blast
  from th [of emptyDocumentSnapshot] emptyDocument_accepted
  have 2: "validateServiceInstanceCredentialPropertiesState sampleCollaborators emptyDocumentSnapshot
       inProgressPath False = []"
    by blast
  from th [of checksumWithoutParameters] a
  have 3: "hasErrorOfType ErrorTypeForbidden
       (validateServiceInstancePropertiesState sampleCollaborators checksumWithoutParameters inProgressPath False)"
    by blast
  from th [of shortChecksum] b
  have 4: "hasErrorOfType ErrorTypeInvalid
       (validateServiceInstanceCredentialPropertiesState sampleCollaborators shortChecksum inProgressPath False)"
    by blast
  from th [of snapshotWithoutChecksum] d
  have 5: "hasErrorAt ErrorTypeForbidden (inProgressPath @ [Child ''parametersChecksum''])
       (validateServiceInstancePropertiesState sampleCollaborators snapshotWithoutChecksum inProgressPath False)"
    "\<not> hasErrorAt ErrorTypeInvalid (inProgressPath @ [Child ''parametersChecksum''])
         (validateServiceInstancePropertiesState sampleCollaborators snapshotWithoutChecksum inProgressPath False)"
    by blast+
  from validSnapshot_accepted emptyDocument_accepted a b d 1 2 3 4 5 show ?thesis by blast
qed

section \<open>Updates of a ServiceInstance while an operation is in progress\<close>

lemma spec_not_forbidden:
  "e \<in> set (validateServiceInstanceSpec ext spec p c) \<Longrightarrow> ErrType e \<noteq> ErrorTypeForbidden"
  by (auto simp: validateServiceInstanceSpec_def validateParametersFromSource_def field_defs
      split: option.splits if_splits)

lemma properties_not_another:
  "e \<in> set (validateServiceInstancePropertiesState ext ps p c) \<Longrightarrow> \<not> anotherOperationInProgress e"
  by (auto simp: validateServiceInstancePropertiesState_def anotherOperationInProgress_def field_defs
      split: option.splits if_splits sum.splits)

lemma readyTrueErrors_member:
  "e \<in> set (readyTrueErrors r msg p i cs) \<Longrightarrow> \<exists>k. e = field_Forbidden (p @ [Child ''Conditions'', Index k]) msg"
  by (induction cs arbitrary: i) (auto split: if_splits)

lemma status_not_another:
  "e \<in> set (validateServiceInstanceStatus ext s p c) \<Longrightarrow> \<not> anotherOperationInProgress e"
  unfolding validateServiceInstanceStatus_def
  by (auto simp: anotherOperationInProgress_def field_defs
      dest!: readyTrueErrors_member properties_not_another [unfolded anotherOperationInProgress_def]
      split: option.splits if_splits)

lemma internal_not_another:
  assumes "\<forall>e \<in> set (ValidateObjectMeta ext (ObjectMeta new) True (validateServiceInstanceName ext)
                        (NewPath ''metadata'')). \<not> anotherOperationInProgress e"
  shows "\<forall>e \<in> set (internalValidateServiceInstance ext new c). \<not> anotherOperationInProgress e"
proof
  fix e assume "e \<in> set (internalValidateServiceInstance ext new c)"
  then consider
      "e \<in> set (ValidateObjectMeta ext (ObjectMeta new) True (validateServiceInstanceName ext) (NewPath ''metadata''))"
    | "e \<in> set (validateServiceInstanceSpec ext (Spec new) (NewPath ''Spec'') c)"
    | "e \<in> set (validateServiceInstanceStatus ext (Status new) (NewPath ''Status'') c)"
    | "e = field_Forbidden (NewPath ''Status'' @ [Child ''currentOperation''])
             ''currentOperation must not be present when reconciledGeneration and generation are the same''"
    by (auto simp: internalValidateServiceInstance_def split: if_splits)
  then show "\<not> anotherOperationInProgress e"
  proof cases
    case 1 with assms show ?thesis by blast
  next
    case 2 then show ?thesis using spec_not_forbidden by (auto simp: anotherOperationInProgress_def)
  next
    case 3 then show ?thesis by (rule status_not_another)
  next
    case 4 then show ?thesis by (simp add: anotherOperationInProgress_def field_defs)
  qed
qed

lemma misnamed_meta:
  "ValidateObjectMeta sampleCollaborators (ObjectMeta misnamedUpdate) True
     (validateServiceInstanceName sampleCollaborators) (NewPath ''metadata'')
   = [field_Invalid (NewPath ''metadata'' @ [Child ''name'']) ''Test_Instance'' ''not a DNS subdomain'']"
  by (simp add: sampleCollaborators_def validateServiceInstanceName_def sampleNameCheck_def
      misnamedUpdate_def asyncInstance_def sampleMeta_def)

text \<open>
  Claim C6. \<^verbatim>\<open>ValidateServiceInstanceUpdate\<close> returns the rejection ``Another operation for
  this service instance is in progress'', a Forbidden error, when the old object has an
  asynchronous operation in progress, followed by all the structural errors of the new
  object, whatever the new object is. So the rejection is in the result whenever the old
  object has an asynchronous operation in progress; and it is there only then, provided
  \<^verbatim>\<open>ValidateObjectMeta\<close>, which is apimachinery's, does not report that very error for
  the metadata of the new object.
\<close>

theorem ValidateServiceInstanceUpdate_async_rejection:
  "ValidateServiceInstanceUpdate ext new old =
     (if AsyncOpInProgress (Status old) then [anotherOperationError] else [])
     @ internalValidateServiceInstance ext new False
   \<and> anotherOperationInProgress anotherOperationError
   \<and> (AsyncOpInProgress (Status old) \<longrightarrow>
        list_ex anotherOperationInProgress (ValidateServiceInstanceUpdate ext new old))
   \<and> (\<not> list_ex anotherOperationInProgress
           (ValidateObjectMeta ext (ObjectMeta new) True (validateServiceInstanceName ext)
              (NewPath ''metadata'')) \<longrightarrow>
        (list_ex anotherOperationInProgress (ValidateServiceInstanceUpdate ext new old)
           \<longleftrightarrow> AsyncOpInProgress (Status old)))"
proof -
  have e: "ValidateServiceInstanceUpdate ext new old =
     (if AsyncOpInProgress (Status old) then [anotherOperationError] else [])
     @ internalValidateServiceInstance ext new False"
    by (simp add: ValidateServiceInstanceUpdate_def internalValidateServiceInstanceUpdateAllowed_def
        anotherOperationError_def)
  have a: "anotherOperationInProgress anotherOperationError"
    by (simp add: anotherOperationInProgress_def anotherOperationError_def field_sel field_defs)
  have only_if: "\<not> list_ex anotherOperationInProgress (internalValidateServiceInstance ext new False)"
    if "\<not> list_ex anotherOperationInProgress
           (ValidateObjectMeta ext (ObjectMeta new) True (validateServiceInstanceName ext)
              (NewPath ''metadata''))"
    using internal_not_another [of ext new False] that by (simp add: list_ex_iff)
  show ?thesis
    using a only_if by (auto simp: e)
qed

theorem ValidateServiceInstanceUpdate_async_rejection_witness:
  "\<not> list_ex anotherOperationInProgress
       (ValidateObjectMeta sampleCollaborators (ObjectMeta misnamedUpdate) True
          (validateServiceInstanceName sampleCollaborators) (NewPath ''metadata''))
   \<and> AsyncOpInProgress (Status asyncInstance)
   \<and> list_ex anotherOperationInProgress
       (ValidateServiceInstanceUpdate sampleCollaborators misnamedUpdate asyncInstance)
   \<and> ValidateServiceInstanceUpdate sampleCollaborators misnamedUpdate asyncInstance
       = anotherOperationError # internalValidateServiceInstance sampleCollaborators misnamedUpdate False
   \<and> \<not> AsyncOpInProgress (Status sampleInstance)
   \<and> \<not> list_ex anotherOperationInProgress
         (ValidateServiceInstanceUpdate sampleCollaborators misnamedUpdate sampleInstance)"
proof -
  have h: "\<not> list_ex anotherOperationInProgress
       (ValidateObjectMeta sampleCollaborators (ObjectMeta misnamedUpdate) True
          (validateServiceInstanceName sampleCollaborators) (NewPath ''metadata''))"
    by (simp add: misnamed_meta anotherOperationInProgress_def field_defs)
  have a: "AsyncOpInProgress (Status asyncInstance)" "\<not> AsyncOpInProgress (Status sampleInstance)"
    by (simp_all add: asyncInstance_def sampleInstance_def zeroServiceInstanceStatus_def)
  note th = ValidateServiceInstanceUpdate_async_rejection
    [where ext = sampleCollaborators and new = misnamedUpdate]
  from th [of asyncInstance] a(1)
  have 1: "list_ex anotherOperationInProgress
       (ValidateServiceInstanceUpdate sampleCollaborators misnamedUpdate asyncInstance)"
    by blast
  from th [of asyncInstance, THEN conjunct1] a(1)
  have 2: "ValidateServiceInstanceUpdate sampleCollaborators misnamedUpdate asyncInstance
       = anotherOperationError # internalValidateServiceInstance sampleCollaborators misnamedUpdate False"
    by simp
  from th [of sampleInstance] h a(2)
  have 3: "\<not> list_ex anotherOperationInProgress
         (ValidateServiceInstanceUpdate sampleCollaborators misnamedUpdate sampleInstance)"
    by blast
  from h a 1 2 3 show ?thesis by blast
qed

section \<open>The status of a ServiceInstance\<close>

lemma lookup_legal:
  "lookupBool validServiceInstanceOperations op \<longleftrightarrow> op \<in> legalOperations"
  by (simp add: lookupBool_def validServiceInstanceOperations_def legalOperations_def op_defs)

lemma keys_legal: "mapKeys validServiceInstanceOperations = legalOperations"
  by (auto simp: mapKeys_def validServiceInstanceOperations_def legalOperations_def)

lemma readyTrueErrors_empty_iff:
  "readyTrueErrors ServiceInstanceConditionReady msg p i cs = [] \<longleftrightarrow> \<not> list_ex readyTrue cs"
  by (induction cs arbitrary: i) (auto simp: readyTrue_def)

lemma readyTrueErrors_nth:
  "k < length cs \<Longrightarrow> CondType (cs ! k) = r \<Longrightarrow> CondStatus (cs ! k) = ConditionTrue \<Longrightarrow>
   field_Forbidden (p @ [Child ''Conditions'', Index (i + k)]) msg \<in> set (readyTrueErrors r msg p i cs)"
proof (induction cs arbitrary: i k)
  case Nil
  then show ?case by simp
next
  case (Cons c cs)
  show ?case
  proof (cases k)
    case 0
    with Cons.prems show ?thesis by simp
  next
    case (Suc k')
    with Cons.prems have "field_Forbidden (p @ [Child ''Conditions'', Index (Suc i + k')]) msg
        \<in> set (readyTrueErrors r msg p (Suc i) cs)"
      by (intro Cons.IH) auto
    with Suc show ?thesis by simp
  qed
qed

lemma status_empty_iff:
  "validateServiceInstanceStatus ext s p c = [] \<longleftrightarrow> statusInvariants ext s"
  unfolding validateServiceInstanceStatus_def statusInvariants_def
  by (auto simp: lookup_legal readyTrueErrors_empty_iff properties_empty_iff legalOperations_def
      op_defs split: option.splits)

lemma status_in_full:
  "set (validateServiceInstanceStatus ext (Status i) (NewPath ''Status'') c)
     \<subseteq> set (internalValidateServiceInstance ext i c)"
  by (auto simp: internalValidateServiceInstance_def)

lemma status_not_supported:
  "CurrentOperation s \<notin> legalOperations \<Longrightarrow>
   field_NotSupported (p @ [Child ''currentOperation'']) (CurrentOperation s) legalOperations
     \<in> set (validateServiceInstanceStatus ext s p c)"
  by (simp add: validateServiceInstanceStatus_def lookup_legal keys_legal split del: if_split)

lemma status_start_time:
  "CurrentOperation s \<noteq> [] \<Longrightarrow> OperationStartTime s = None \<Longrightarrow>
   hasErrorAt ErrorTypeRequired (p @ [Child ''operationStartTime'']) (validateServiceInstanceStatus ext s p c)"
  "CurrentOperation s = [] \<Longrightarrow> OperationStartTime s \<noteq> None \<Longrightarrow>
   hasErrorAt ErrorTypeForbidden (p @ [Child ''operationStartTime'']) (validateServiceInstanceStatus ext s p c)"
  by (simp_all add: validateServiceInstanceStatus_def hasErrorAt_append hasErrorAt_Cons field_sel
      split del: if_split)

lemma status_ready_true:
  assumes "CurrentOperation s \<noteq> []" "k < len (Conditions s)" "readyTrue (elems (Conditions s) ! k)"
  shows "hasErrorAt ErrorTypeForbidden (p @ [Child ''Conditions'', Index k])
           (validateServiceInstanceStatus ext s p c)"
proof -
  let ?msg = "''Can not set ServiceInstanceConditionReady to true when there is an operation in progress''"
  from assms(2,3) have "field_Forbidden (p @ [Child ''Conditions'', Index (0 + k)]) ?msg
      \<in> set (readyTrueErrors ServiceInstanceConditionReady ?msg p 0 (elems (Conditions s)))"
    by (intro readyTrueErrors_nth) (auto simp: len_def readyTrue_def)
  with assms(1) have "field_Forbidden (p @ [Child ''Conditions'', Index k]) ?msg
      \<in> set (validateServiceInstanceStatus ext s p c)"
    by (simp add: validateServiceInstanceStatus_def split del: if_split)
  then show ?thesis by (rule hasErrorAt_member) (simp_all add: field_sel)
qed

lemma status_idle:
  "CurrentOperation s = [] \<Longrightarrow> AsyncOpInProgress s \<Longrightarrow>
   hasErrorAt ErrorTypeForbidden (p @ [Child ''asyncOpInProgress'']) (validateServiceInstanceStatus ext s p c)"
  "CurrentOperation s = [] \<Longrightarrow> LastOperation s \<noteq> None \<Longrightarrow>
   hasErrorAt ErrorTypeForbidden (p @ [Child ''lastOperation'']) (validateServiceInstanceStatus ext s p c)"
  by (simp_all add: validateServiceInstanceStatus_def hasErrorAt_append hasErrorAt_Cons field_sel
      split del: if_split)

lemma status_in_progress_properties:
  "CurrentOperation s \<in> {ServiceInstanceOperationProvision, ServiceInstanceOperationUpdate} \<Longrightarrow>
   InProgressProperties s = None \<Longrightarrow>
   hasErrorAt ErrorTypeRequired (p @ [Child ''inProgressProperties'']) (validateServiceInstanceStatus ext s p c)"
  "CurrentOperation s \<notin> {ServiceInstanceOperationProvision, ServiceInstanceOperationUpdate} \<Longrightarrow>
   InProgressProperties s \<noteq> None \<Longrightarrow>
   hasErrorAt ErrorTypeForbidden (p @ [Child ''inProgressProperties'']) (validateServiceInstanceStatus ext s p c)"
  by (simp_all add: validateServiceInstanceStatus_def hasErrorAt_append hasErrorAt_Cons field_sel
      split del: if_split)

lemma full_invariant_1:
  "ReconciledGeneration (Status i) = Generation (ObjectMeta i) \<Longrightarrow> CurrentOperation (Status i) \<noteq> [] \<Longrightarrow>
   hasErrorAt ErrorTypeForbidden (NewPath ''Status'' @ [Child ''currentOperation''])
     (internalValidateServiceInstance ext i c)"
  by (simp add: internalValidateServiceInstance_def hasErrorAt_append hasErrorAt_Cons field_sel
      split del: if_split)

lemma provisioning_invariants: "statusInvariants sampleCollaborators provisioning"
  using validSnapshot_accepted
  by (simp add: statusInvariants_def provisioning_def zeroServiceInstanceStatus_def
      legalOperations_def elems_def op_defs)

text \<open>
  Claim C8. For every ServiceInstance status: an operation outside the legal set gives a
  NotSupported error that lists the legal set; the status validator returns no error
  exactly when the status keeps the invariants (\<open>statusInvariants\<close>); and each breach has
  its own error: a present operation without start time (Required) and a start time
  without operation (Forbidden), a Ready condition that is True at index \<open>k\<close> while an
  operation is present (Forbidden), an asynchronous operation in progress or a last
  operation without a current operation (Forbidden), missing in-progress properties under
  Provision or Update (Required) and in-progress properties under any other operation
  (Forbidden). The validator of the whole object returns every error of the status
  validator, and adds a Forbidden error for a current operation on an object whose
  reconciled generation equals its generation (Invariant 1, which needs the metadata).
\<close>

theorem validateServiceInstanceStatus_enforces_invariants:
  "(CurrentOperation s \<notin> legalOperations \<longrightarrow>
      field_NotSupported (p @ [Child ''currentOperation'']) (CurrentOperation s) legalOperations
        \<in> set (validateServiceInstanceStatus ext s p c))
   \<and> (validateServiceInstanceStatus ext s p c = [] \<longleftrightarrow> statusInvariants ext s)
   \<and> (CurrentOperation s \<noteq> [] \<and> OperationStartTime s = None \<longrightarrow>
        hasErrorAt ErrorTypeRequired (p @ [Child ''operationStartTime''])
          (validateServiceInstanceStatus ext s p c))
   \<and> (CurrentOperation s = [] \<and> OperationStartTime s \<noteq> None \<longrightarrow>
        hasErrorAt ErrorTypeForbidden (p @ [Child ''operationStartTime''])
          (validateServiceInstanceStatus ext s p c))
   \<and> (CurrentOperation s \<noteq> [] \<and> k < len (Conditions s) \<and> readyTrue (elems (Conditions s) ! k) \<longrightarrow>
        hasErrorAt ErrorTypeForbidden (p @ [Child ''Conditions'', Index k])
          (validateServiceInstanceStatus ext s p c))
   \<and> (CurrentOperation s = [] \<and> AsyncOpInProgress s \<longrightarrow>
        hasErrorAt ErrorTypeForbidden (p @ [Child ''asyncOpInProgress''])
          (validateServiceInstanceStatus ext s p c))
   \<and> (CurrentOperation s = [] \<and> LastOperation s \<noteq> None \<longrightarrow>
        hasErrorAt ErrorTypeForbidden (p @ [Child ''lastOperation''])
          (validateServiceInstanceStatus ext s p c))
   \<and> (CurrentOperation s \<in> {ServiceInstanceOperationProvision, ServiceInstanceOperationUpdate}
        \<and> InProgressProperties s = None \<longrightarrow>
        hasErrorAt ErrorTypeRequired (p @ [Child ''inProgressProperties''])
          (validateServiceInstanceStatus ext s p c))
   \<and> (CurrentOperation s \<notin> {ServiceInstanceOperationProvision, ServiceInstanceOperationUpdate}
        \<and> InProgressProperties s \<noteq> None \<longrightarrow>
        hasErrorAt ErrorTypeForbidden (p @ [Child ''inProgressProperties''])
          (validateServiceInstanceStatus ext s p c))
   \<and> set (validateServiceInstanceStatus ext (Status i) (NewPath ''Status'') c)
        \<subseteq> set (internalValidateServiceInstance ext i c)
   \<and> (ReconciledGeneration (Status i) = Generation (ObjectMeta i) \<and> CurrentOperation (Status i) \<noteq> [] \<longrightarrow>
        hasErrorAt ErrorTypeForbidden (NewPath ''Status'' @ [Child ''currentOperation''])
          (internalValidateServiceInstance ext i c))"
proof (intro conjI impI; (elim conjE)?)
  show "validateServiceInstanceStatus ext s p c = [] \<longleftrightarrow> statusInvariants ext s"
    by (rule status_empty_iff)
  show "set (validateServiceInstanceStatus ext (Status i) (NewPath ''Status'') c)
          \<subseteq> set (internalValidateServiceInstance ext i c)"
    by (rule status_in_full)
qed (erule (2) status_ready_true
     | erule (1) status_start_time status_idle status_in_progress_properties full_invariant_1
     | erule status_not_supported)+

theorem validateServiceInstanceStatus_enforces_invariants_witness:
  "CurrentOperation badOperation \<notin> legalOperations
   \<and> field_NotSupported (NewPath ''Status'' @ [Child ''currentOperation'']) ''bad-operation'' legalOperations
       \<in> set (sampleStatusErrors badOperation)
   \<and> hasErrorAt ErrorTypeRequired (NewPath ''Status'' @ [Child ''operationStartTime''])
       (sampleStatusErrors badOperation)
   \<and> hasErrorAt ErrorTypeForbidden (NewPath ''Status'' @ [Child ''Conditions'', Index 0])
       (sampleStatusErrors badOperation)
   \<and> hasErrorAt ErrorTypeForbidden (NewPath ''Status'' @ [Child ''operationStartTime''])
       (sampleStatusErrors idleViolations)
   \<and> hasErrorAt ErrorTypeForbidden (NewPath ''Status'' @ [Child ''asyncOpInProgress''])
       (sampleStatusErrors idleViolations)
   \<and> hasErrorAt ErrorTypeForbidden (NewPath ''Status'' @ [Child ''lastOperation''])
       (sampleStatusErrors idleViolations)
   \<and> hasErrorAt ErrorTypeForbidden (NewPath ''Status'' @ [Child ''inProgressProperties''])
       (sampleStatusErrors idleViolations)
   \<and> hasErrorAt ErrorTypeRequired (NewPath ''Status'' @ [Child ''inProgressProperties''])
       (sampleStatusErrors provisionWithoutProperties)
   \<and> statusInvariants sampleCollaborators provisioning
   \<and> sampleStatusErrors provisioning = []
   \<and> ReconciledGeneration (Status reconciledButBusy) = Generation (ObjectMeta reconciledButBusy)
   \<and> hasErrorAt ErrorTypeForbidden (NewPath ''Status'' @ [Child ''currentOperation''])
       (internalValidateServiceInstance sampleCollaborators reconciledButBusy False)"
proof -
  note t1 = validateServiceInstanceStatus_enforces_invariants [where ext = sampleCollaborators and p = "NewPath ''Status''" and c = False,
      folded sampleStatusErrors_def]
  note t2 = t1 [THEN conjunct2]
  note t3 = t2 [THEN conjunct2]
  note t4 = t3 [THEN conjunct2]
  note t5 = t4 [THEN conjunct2]
  note t6 = t5 [THEN conjunct2]
  note t7 = t6 [THEN conjunct2]
  note t8 = t7 [THEN conjunct2]
  note t9 = t8 [THEN conjunct2]
  note t11 = t9 [THEN conjunct2, THEN conjunct2]
  have b: "CurrentOperation badOperation = ''bad-operation''"
      "CurrentOperation badOperation \<notin> legalOperations"
      "CurrentOperation badOperation \<noteq> []" "OperationStartTime badOperation = None"
      "0 < len (Conditions badOperation)" "readyTrue (elems (Conditions badOperation) ! 0)"
    by (simp_all add: badOperation_def zeroServiceInstanceStatus_def legalOperations_def op_defs
        len_def elems_def readyTrue_def)
  have v: "CurrentOperation idleViolations = []" "OperationStartTime idleViolations \<noteq> None"
      "AsyncOpInProgress idleViolations" "LastOperation idleViolations \<noteq> None"
      "CurrentOperation idleViolations
         \<notin> {ServiceInstanceOperationProvision, ServiceInstanceOperationUpdate}"
      "InProgressProperties idleViolations \<noteq> None"
    by (simp_all add: idleViolations_def zeroServiceInstanceStatus_def op_defs)
  have q: "CurrentOperation provisionWithoutProperties
         \<in> {ServiceInstanceOperationProvision, ServiceInstanceOperationUpdate}"
      "InProgressProperties provisionWithoutProperties = None"
    by (simp_all add: provisionWithoutProperties_def zeroServiceInstanceStatus_def)
  have r: "ReconciledGeneration (Status reconciledButBusy) = Generation (ObjectMeta reconciledButBusy)"
      "CurrentOperation (Status reconciledButBusy) \<noteq> []"
    by (simp_all add: reconciledButBusy_def provisioning_def sampleMeta_def op_defs)
  have 1: "field_NotSupported (NewPath ''Status'' @ [Child ''currentOperation'']) ''bad-operation'' legalOperations
       \<in> set (sampleStatusErrors badOperation)"
    using t1 [THEN conjunct1, rule_format, OF b(2)] by (simp only: b(1))
  have 3: "hasErrorAt ErrorTypeRequired (NewPath ''Status'' @ [Child ''operationStartTime''])
       (sampleStatusErrors badOperation)"
    by (rule t3 [THEN conjunct1, rule_format]) (simp add: b)
  have 5: "hasErrorAt ErrorTypeForbidden (NewPath ''Status'' @ [Child ''Conditions'', Index 0])
       (sampleStatusErrors badOperation)"
    by (rule t5 [THEN conjunct1, rule_format]) (simp add: b)
  have 4: "hasErrorAt ErrorTypeForbidden (NewPath ''Status'' @ [Child ''operationStartTime''])
       (sampleStatusErrors idleViolations)"
    by (rule t4 [THEN conjunct1, rule_format]) (simp add: v)
  have 6: "hasErrorAt ErrorTypeForbidden (NewPath ''Status'' @ [Child ''asyncOpInProgress''])
       (sampleStatusErrors idleViolations)"
    by (rule t6 [THEN conjunct1, rule_format]) (simp add: v)
  have 7: "hasErrorAt ErrorTypeForbidden (NewPath ''Status'' @ [Child ''lastOperation''])
       (sampleStatusErrors idleViolations)"
    by (rule t7 [THEN conjunct1, rule_format]) (simp add: v)
  have 9: "hasErrorAt ErrorTypeForbidden (NewPath ''Status'' @ [Child ''inProgressProperties''])
       (sampleStatusErrors idleViolations)"
    by (rule t9 [THEN conjunct1, rule_format]) (use v in blast)
  have 8: "hasErrorAt ErrorTypeRequired (NewPath ''Status'' @ [Child ''inProgressProperties''])
       (sampleStatusErrors provisionWithoutProperties)"
    by (rule t8 [THEN conjunct1, rule_format]) (use q in blast)
  have 2: "sampleStatusErrors provisioning = []"
    using t2 [THEN conjunct1, of provisioning] provisioning_invariants by blast
  have 11: "hasErrorAt ErrorTypeForbidden (NewPath ''Status'' @ [Child ''currentOperation''])
       (internalValidateServiceInstance sampleCollaborators reconciledButBusy False)"
    by (rule t11 [rule_format]) (use r in blast)
  show ?thesis
    by (intro conjI b(2) 1 3 5 4 6 7 9 8 provisioning_invariants 2 r(1) 11)
qed

section \<open>Status updates\<close>

lemma create_ignored:
  "internalValidateServiceInstance ext i True = internalValidateServiceInstance ext i False"
  by (simp add: internalValidateServiceInstance_def validateServiceInstanceSpec_def
      validateServiceInstanceStatus_def validateServiceInstancePropertiesState_def
      split: option.splits)

lemma backwardNew_valid: "ValidateServiceInstance sampleCollaborators backwardNew = []"
  by (simp add: ValidateServiceInstance_def internalValidateServiceInstance_def
      validateServiceInstanceSpec_def validateServiceInstanceStatus_def
      validateServiceInstanceName_def sampleCollaborators_def sampleNameCheck_def
      backwardNew_def sampleInstance_def sampleMeta_def sampleSpec_def zeroServiceInstanceStatus_def
      lookupBool_def validServiceInstanceOperations_def NewPath_def op_defs)

text \<open>
  Claim C9. \<^verbatim>\<open>ValidateServiceInstanceStatusUpdate\<close> returns exactly the errors of the full
  object validator on the new object, the same for every old object; so a new object that
  passes structural validation is accepted, also when its reconciled generation is smaller
  than that of the old object or larger than its own generation (the sample status write
  has both).
\<close>

theorem ValidateServiceInstanceStatusUpdate_structural_only:
  "ValidateServiceInstanceStatusUpdate ext new old = ValidateServiceInstance ext new
   \<and> ValidateServiceInstanceStatusUpdate ext new old = ValidateServiceInstanceStatusUpdate ext new old'
   \<and> (ValidateServiceInstance ext new = [] \<longrightarrow> ValidateServiceInstanceStatusUpdate ext new old = [])"
  by (simp add: ValidateServiceInstanceStatusUpdate_def ValidateServiceInstance_def
      internalValidateServiceInstanceStatusUpdateAllowed_def create_ignored)

theorem ValidateServiceInstanceStatusUpdate_structural_only_witness:
  "ValidateServiceInstance sampleCollaborators backwardNew = []
   \<and> sint (ReconciledGeneration (Status backwardNew)) < sint (ReconciledGeneration (Status backwardOld))
   \<and> sint (Generation (ObjectMeta backwardNew)) < sint (ReconciledGeneration (Status backwardNew))
   \<and> ValidateServiceInstanceStatusUpdate sampleCollaborators backwardNew backwardOld = []"
proof -
  have "sint (ReconciledGeneration (Status backwardNew)) < sint (ReconciledGeneration (Status backwardOld))"
    "sint (Generation (ObjectMeta backwardNew)) < sint (ReconciledGeneration (Status backwardNew))"
    by (simp_all add: backwardNew_def backwardOld_def sampleInstance_def sampleMeta_def
        zeroServiceInstanceStatus_def)
  with ValidateServiceInstanceStatusUpdate_structural_only [of sampleCollaborators backwardNew backwardOld] backwardNew_valid
  show ?thesis by simp
qed

text \<open>
  Claim C10. For a ServiceInstanceCredential the validator of a status update returns the
  same error list as the validator of an update, and neither result depends on the old
  object.
\<close>

theorem credential_status_update_same_as_update:
  "ValidateServiceInstanceCredentialStatusUpdate ext new old
     = ValidateServiceInstanceCredentialUpdate ext new old
   \<and> ValidateServiceInstanceCredentialUpdate ext new old1
     = ValidateServiceInstanceCredentialUpdate ext new old2
   \<and> ValidateServiceInstanceCredentialStatusUpdate ext new old1
     = ValidateServiceInstanceCredentialStatusUpdate ext new old2"
  by (simp add: ValidateServiceInstanceCredentialStatusUpdate_def
      ValidateServiceInstanceCredentialUpdate_def)

end
